theory Spec2Isabelle
  imports Main "HOL-Library.Word" "HOL-Library.Signed_Division"
begin

unbundle bit_operations_syntax

section \<open>The transport and the host state\<close>

text \<open>
  The library keeps one global, \<^verbatim>\<open>uint16_t FifoWriteLocation\<close>, and talks to the chip
  through the SPI primitives of \<^verbatim>\<open>hw_api.h\<close>. The state of the model is that global
  together with the bus: the log of every primitive call in the order it was made, and the
  bytes the chip shifts out when the host reads.
\<close>

type_synonym u8 = "8 word"
type_synonym u16 = "16 word"
type_synonym u32 = "32 word"
type_synonym s32 = "32 word"
type_synonym s64 = "64 word"

datatype spi_event =
    SPI_Enable
  | SPI_Disable
  | SPI_Write u8
  | SPI_WriteBuffer "u8 list"
  | SPI_ReadBuffer "u8 list"
  | Delay nat
  | LogOut "u8 list"
  | Reset_HW

record eve_state =
  FifoWriteLocation :: u16
  bus :: "spi_event list"
  miso :: "nat \<Rightarrow> u8"
  nread :: nat

text \<open>
  Modelled from the spec: the transport primitives of \<^verbatim>\<open>hw_api.h\<close>, which is not under
  src/ (open-transaction, write byte/buffer, read byte/buffer, close-transaction, and the
  delay and hardware reset). Each call is appended to the log; a read of \<open>n\<close> bytes takes
  the next \<open>n\<close> bytes of \<open>miso\<close>, the stream of bytes the chip answers with.
\<close>

definition HAL_SPI_Enable :: "eve_state \<Rightarrow> eve_state" where
  "HAL_SPI_Enable s = s\<lparr>bus := bus s @ [SPI_Enable]\<rparr>"

definition HAL_SPI_Disable :: "eve_state \<Rightarrow> eve_state" where
  "HAL_SPI_Disable s = s\<lparr>bus := bus s @ [SPI_Disable]\<rparr>"

definition HAL_SPI_Write :: "u8 \<Rightarrow> eve_state \<Rightarrow> eve_state" where
  "HAL_SPI_Write b s = s\<lparr>bus := bus s @ [SPI_Write b]\<rparr>"

definition HAL_SPI_WriteBuffer :: "u8 list \<Rightarrow> eve_state \<Rightarrow> eve_state" where
  "HAL_SPI_WriteBuffer bs s = s\<lparr>bus := bus s @ [SPI_WriteBuffer bs]\<rparr>"

definition HAL_SPI_ReadBuffer :: "nat \<Rightarrow> eve_state \<Rightarrow> u8 list \<times> eve_state" where
  "HAL_SPI_ReadBuffer n s =
     (let buf = map (miso s) [nread s ..< nread s + n]
      in (buf, s\<lparr>bus := bus s @ [SPI_ReadBuffer buf], nread := nread s + n\<rparr>))"

definition HAL_Delay :: "nat \<Rightarrow> eve_state \<Rightarrow> eve_state" where
  "HAL_Delay ms s = s\<lparr>bus := bus s @ [Delay ms]\<rparr>"

definition HAL_Eve_Reset_HW :: "eve_state \<Rightarrow> eve_state" where
  "HAL_Eve_Reset_HW s = s\<lparr>bus := bus s @ [Reset_HW]\<rparr>"

text \<open>\<^verbatim>\<open>#define Log printf\<close>: the characters printed are logged with the bus events.\<close>

definition Log :: "u8 list \<Rightarrow> eve_state \<Rightarrow> eve_state" where
  "Log cs s = s\<lparr>bus := bus s @ [LogOut cs]\<rparr>"

section \<open>Constants of the header\<close>

text \<open>
  \<^verbatim>\<open>eve.h\<close> is not under src/. The two window bases are quoted in the comments of
  \<^verbatim>\<open>eve.c\<close> (\<^verbatim>\<open>RAM_CMD 0x308000\<close>, \<^verbatim>\<open>RAM_REG = 0x302000\<close>); \<^verbatim>\<open>WorkBuffSz\<close> is
  defined in \<^verbatim>\<open>eve.c\<close> itself. The register offsets are taken as a parameter.
\<close>

definition RAM_CMD :: u32 where "RAM_CMD = 0x308000"
definition RAM_REG :: u32 where "RAM_REG = 0x302000"
definition WorkBuffSz :: u32 where "WorkBuffSz = 512"

text \<open>
  Modelled from the spec: the FIFO window size (4096 bytes) and the size of a command
  word (4 bytes), the macros \<^verbatim>\<open>FT_CMD_FIFO_SIZE\<close> and \<^verbatim>\<open>FT_CMD_SIZE\<close> of \<^verbatim>\<open>eve.h\<close>.
\<close>

definition FT_CMD_FIFO_SIZE :: nat where "FT_CMD_FIFO_SIZE = 4096"
definition FT_CMD_SIZE :: nat where "FT_CMD_SIZE = 4"

record eve_h =
  REG_CMD_READ :: u32
  REG_CMD_WRITE :: u32
  REG_CMD_DL :: u32
  REG_CPU_RESET :: u32
  REG_COPRO_PATCH_PTR :: u32
  REG_TOUCH_TRANSFORM_A :: u32
  RAM_ERR_REPORT :: u32

section \<open>Register access\<close>

definition wr32 :: "u32 \<Rightarrow> u32 \<Rightarrow> eve_state \<Rightarrow> eve_state" where
  "wr32 address parameter s =
     (let s = HAL_SPI_Enable s;
          buffer = [ucast (drop_bit 16 address OR 0x80) :: u8,
                    ucast (drop_bit 8 address),
                    ucast address,
                    ucast (parameter AND 0xff),
                    ucast (drop_bit 8 parameter AND 0xff),
                    ucast (drop_bit 16 parameter AND 0xff),
                    ucast (drop_bit 24 parameter AND 0xff)];
          s = HAL_SPI_WriteBuffer buffer s
      in HAL_SPI_Disable s)"

definition wr16 :: "u32 \<Rightarrow> u16 \<Rightarrow> eve_state \<Rightarrow> eve_state" where
  "wr16 address parameter s =
     (let s = HAL_SPI_Enable s;
          s = HAL_SPI_Write (ucast (drop_bit 16 address OR 0x80)) s;
          s = HAL_SPI_Write (ucast (drop_bit 8 address)) s;
          s = HAL_SPI_Write (ucast address) s;
          s = HAL_SPI_Write (ucast (parameter AND 0xff)) s;
          s = HAL_SPI_Write (ucast (drop_bit 8 parameter)) s
      in HAL_SPI_Disable s)"

definition wr8 :: "u32 \<Rightarrow> u8 \<Rightarrow> eve_state \<Rightarrow> eve_state" where
  "wr8 address parameter s =
     (let s = HAL_SPI_Enable s;
          s = HAL_SPI_Write (ucast (drop_bit 16 address OR 0x80)) s;
          s = HAL_SPI_Write (ucast (drop_bit 8 address)) s;
          s = HAL_SPI_Write (ucast address) s;
          s = HAL_SPI_Write parameter s
      in HAL_SPI_Disable s)"

definition rd32 :: "u32 \<Rightarrow> eve_state \<Rightarrow> u32 \<times> eve_state" where
  "rd32 address s =
     (let s = HAL_SPI_Enable s;
          buf = [ucast (drop_bit 16 address AND 0x3F) :: u8,
                 ucast (drop_bit 8 address AND 0xff),
                 ucast (address AND 0xff)];
          s = HAL_SPI_WriteBuffer buf s;
          (buf, s) = HAL_SPI_ReadBuffer 4 s;
          s = HAL_SPI_Disable s;
          Data32 = ucast (buf ! 0) + push_bit 8 (ucast (buf ! 1)) + push_bit 16 (ucast (buf ! 2))
                   + push_bit 24 (ucast (buf ! 3))
      in (Data32, s))"

definition rd16 :: "u32 \<Rightarrow> eve_state \<Rightarrow> u16 \<times> eve_state" where
  "rd16 address s =
     (let s = HAL_SPI_Enable s;
          s = HAL_SPI_Write (ucast (drop_bit 16 address AND 0x3F)) s;
          s = HAL_SPI_Write (ucast (drop_bit 8 address AND 0xff)) s;
          s = HAL_SPI_Write (ucast (address AND 0xff)) s;
          (buf, s) = HAL_SPI_ReadBuffer 2 s;
          s = HAL_SPI_Disable s;
          Data16 = ucast (buf ! 0) + push_bit 8 (ucast (buf ! 1))
      in (Data16, s))"

definition rd8 :: "u32 \<Rightarrow> eve_state \<Rightarrow> u8 \<times> eve_state" where
  "rd8 address s =
     (let s = HAL_SPI_Enable s;
          s = HAL_SPI_Write (ucast (drop_bit 16 address AND 0x3F)) s;
          s = HAL_SPI_Write (ucast (drop_bit 8 address AND 0xff)) s;
          s = HAL_SPI_Write (ucast (address AND 0xff)) s;
          (buf, s) = HAL_SPI_ReadBuffer 1 s;
          s = HAL_SPI_Disable s
      in (buf ! 0, s))"

section \<open>The command FIFO\<close>

definition Eve_Reset :: "eve_state \<Rightarrow> eve_state" where
  "Eve_Reset s = HAL_Eve_Reset_HW (s\<lparr>FifoWriteLocation := 0\<rparr>)"

definition Send_CMD :: "u32 \<Rightarrow> eve_state \<Rightarrow> eve_state" where
  "Send_CMD data s =
     (let s = wr32 (ucast (FifoWriteLocation s) + RAM_CMD) data s;
          s = s\<lparr>FifoWriteLocation := FifoWriteLocation s + word_of_nat FT_CMD_SIZE\<rparr>
      in s\<lparr>FifoWriteLocation := FifoWriteLocation s mod word_of_nat FT_CMD_FIFO_SIZE\<rparr>)"

definition UpdateFIFO :: "eve_h \<Rightarrow> eve_state \<Rightarrow> eve_state" where
  "UpdateFIFO h s = wr16 (REG_CMD_WRITE h + RAM_REG) (FifoWriteLocation s) s"

text \<open>A sequence of enqueue calls, one per command word.\<close>

fun Send_CMDs :: "u32 list \<Rightarrow> eve_state \<Rightarrow> eve_state" where
  "Send_CMDs [] s = s"
| "Send_CMDs (d # ds) s = Send_CMDs ds (Send_CMD d s)"

text \<open>
  \<^verbatim>\<open>CoProFIFO_FreeSpace\<close> reads both cursor registers of the chip. The two
  \<^verbatim>\<open>uint16_t\<close> operands are promoted to \<^verbatim>\<open>int\<close> before the subtraction (an
  \<^verbatim>\<open>int\<close> wider than 16 bits, as on the 32-bit targets and the PC build of the demo), so
  the difference may be negative and \<^verbatim>\<open>%\<close> truncates towards zero; each result is cut
  to 16 bits when it is stored.
\<close>

definition CoProFIFO_FreeSpace :: "eve_h \<Rightarrow> eve_state \<Rightarrow> u16 \<times> eve_state" where
  "CoProFIFO_FreeSpace h s =
     (let (cmdBufferRd, s) = rd16 (REG_CMD_READ h + RAM_REG) s;
          (cmdBufferWr, s) = rd16 (REG_CMD_WRITE h + RAM_REG) s;
          cmdBufferDiff = (word_of_int ((uint cmdBufferWr - uint cmdBufferRd)
                                         smod int FT_CMD_FIFO_SIZE) :: u16);
          retval = (word_of_int ((int FT_CMD_FIFO_SIZE - 4) - uint cmdBufferDiff) :: u16)
      in (retval, s))"

text \<open>A busy wait has no bound: a run that never leaves it is \<open>None\<close>.\<close>

partial_function (option) Wait4CoProFIFO :: "eve_h \<Rightarrow> u32 \<Rightarrow> eve_state \<Rightarrow> eve_state option" where
  "Wait4CoProFIFO h room s =
     (case CoProFIFO_FreeSpace h s of
        (getfreespace, s') \<Rightarrow>
          if ucast getfreespace < room then Wait4CoProFIFO h room s' else Some s')"

text \<open>The inner loop of \<^verbatim>\<open>Wait4CoProFIFOEmpty\<close> that prints the chip's error string.\<close>

function Wait4CoProFIFOEmpty_report :: "eve_h \<Rightarrow> u8 \<Rightarrow> eve_state \<Rightarrow> eve_state" where
  "Wait4CoProFIFOEmpty_report h Offset s =
     (let (ErrChar, s) = rd8 (RAM_ERR_REPORT h + ucast Offset) s;
          Offset = Offset + 1;
          s = Log [ErrChar] s
      in if ErrChar \<noteq> 0 \<and> Offset < 128 then Wait4CoProFIFOEmpty_report h Offset s else s)"
  by pat_completeness auto
termination
proof (relation "measure (\<lambda>(h, Offset, s). unat (127 - Offset))", goal_cases)
  case 1
  show ?case by simp
next
  case (2 h Offset s x xa y xb xc)
  then have lt: "Offset + 1 < 128" by simp
  define d where "d = 127 - Offset"
  have ne: "d \<noteq> 0"
  proof
    assume "d = 0"
    then have "Offset = 127" by (simp add: d_def)
    with lt show False by simp
  qed
  have eq: "127 - (Offset + 1) = d - 1" by (simp add: d_def)
  have "unat (d - 1) < unat d" using ne by (simp add: unat_minus_one unat_gt_0)
  then have "unat (127 - (Offset + 1)) < unat (127 - Offset)" unfolding eq d_def .
  with 2 show ?case by simp
qed

declare Wait4CoProFIFOEmpty_report.simps [simp del]

text \<open>One pass of the \<^verbatim>\<open>do ... while\<close> of \<^verbatim>\<open>Wait4CoProFIFOEmpty\<close>: the body, then the
  loop condition \<^verbatim>\<open>ReadReg != rd16(REG_CMD_WRITE + RAM_REG)\<close>.\<close>

definition Wait4CoProFIFOEmpty_poll :: "eve_h \<Rightarrow> eve_state \<Rightarrow> bool \<times> eve_state" where
  "Wait4CoProFIFOEmpty_poll h s =
     (let (ReadReg, s) = rd16 (REG_CMD_READ h + RAM_REG) s;
          s = (if ReadReg = 0xFFF then
                 (let s = Log [0x0A] s;
                      s = Wait4CoProFIFOEmpty_report h 0 s;
                      s = Log [0x0A] s;
                      (Patch_Add, s) = rd32 (REG_COPRO_PATCH_PTR h + RAM_REG) s;
                      s = wr8 (REG_CPU_RESET h + RAM_REG) 1 s;
                      s = wr16 (REG_CMD_READ h + RAM_REG) 0 s;
                      s = wr16 (REG_CMD_WRITE h + RAM_REG) 0 s;
                      s = wr16 (REG_CMD_DL h + RAM_REG) 0 s;
                      s = wr8 (REG_CPU_RESET h + RAM_REG) 0 s;
                      s = wr32 (REG_COPRO_PATCH_PTR h + RAM_REG) Patch_Add s
                  in HAL_Delay 250 s)
               else s);
          (cmdWr, s) = rd16 (REG_CMD_WRITE h + RAM_REG) s
      in (ReadReg \<noteq> cmdWr, s))"

partial_function (option) Wait4CoProFIFOEmpty :: "eve_h \<Rightarrow> eve_state \<Rightarrow> eve_state option" where
  "Wait4CoProFIFOEmpty h s =
     (case Wait4CoProFIFOEmpty_poll h s of
        (again, s') \<Rightarrow> if again then Wait4CoProFIFOEmpty h s' else Some s')"

section \<open>Bulk transfer\<close>

definition StartCoProTransfer :: "u32 \<Rightarrow> bool \<Rightarrow> eve_state \<Rightarrow> eve_state" where
  "StartCoProTransfer address reading s =
     (let s = HAL_SPI_Enable s
      in if reading then
           (let s = HAL_SPI_Write (ucast (drop_bit 16 address)) s;
                s = HAL_SPI_Write (ucast (drop_bit 8 address)) s;
                s = HAL_SPI_Write (ucast address) s
            in HAL_SPI_Write 0 s)
         else
           (let s = HAL_SPI_Write (ucast (drop_bit 16 address OR 0x80)) s;
                s = HAL_SPI_Write (ucast (drop_bit 8 address)) s
            in HAL_SPI_Write (ucast address) s))"

text \<open>
  \<^verbatim>\<open>CoProWrCmdBuf(buff, count)\<close>. The pointer \<^verbatim>\<open>buff\<close> is a position in the host's
  memory \<open>mem\<close>; a chunk is read from there whatever \<open>count\<close> was, as the C code does when
  it pads the last chunk. \<^verbatim>\<open>Remaining\<close> is the signed 32-bit copy of \<^verbatim>\<open>count\<close>.
  The function below is the \<^verbatim>\<open>do ... while (Remaining > 0)\<close> loop.
\<close>

partial_function (option) CoProWrCmdBuf_loop ::
    "eve_h \<Rightarrow> (nat \<Rightarrow> u8) \<Rightarrow> nat \<Rightarrow> s32 \<Rightarrow> eve_state \<Rightarrow> eve_state option" where
  "CoProWrCmdBuf_loop h mem buff Remaining s =
     (case Wait4CoProFIFO h WorkBuffSz s of
        None \<Rightarrow> None
      | Some s \<Rightarrow>
         (let TransferSize = (if WorkBuffSz <s Remaining then WorkBuffSz
                              else (Remaining + 3) AND 0xFFC);
              s = StartCoProTransfer (ucast (FifoWriteLocation s) + RAM_CMD) False s;
              s = HAL_SPI_WriteBuffer (map mem [buff ..< buff + unat TransferSize]) s;
              buff = buff + unat TransferSize;
              s = s\<lparr>FifoWriteLocation :=
                      ucast ((ucast (FifoWriteLocation s) + TransferSize)
                             mod (word_of_nat FT_CMD_FIFO_SIZE :: u32))\<rparr>;
              s = HAL_SPI_Disable s;
              s = wr16 (REG_CMD_WRITE h + RAM_REG) (FifoWriteLocation s) s;
              Remaining = Remaining - TransferSize
          in if 0 <s Remaining then CoProWrCmdBuf_loop h mem buff Remaining s else Some s))"

definition CoProWrCmdBuf :: "eve_h \<Rightarrow> (nat \<Rightarrow> u8) \<Rightarrow> nat \<Rightarrow> u32 \<Rightarrow> eve_state \<Rightarrow> eve_state option" where
  "CoProWrCmdBuf h mem buff count s = CoProWrCmdBuf_loop h mem buff count s"

section \<open>Touch calibration\<close>

datatype fault = DivideByZero

text \<open>
  \<^verbatim>\<open>((int64_t)tmp << 16) / k\<close>: the 32-bit numerator is sign-extended to 64 bits and
  shifted, \<^verbatim>\<open>k\<close> is sign-extended, the quotient truncates towards zero and is cut to
  32 bits when it is stored. The division traps when \<^verbatim>\<open>k\<close> is zero.
\<close>

definition sdiv64 :: "s64 \<Rightarrow> s64 \<Rightarrow> fault + s64" where
  "sdiv64 a b = (if b = 0 then Inl DivideByZero else Inr (word_of_int (sint a sdiv sint b)))"

definition bind_fault :: "fault + 'a \<Rightarrow> ('a \<Rightarrow> fault + 'b) \<Rightarrow> fault + 'b" where
  "bind_fault r f = (case r of Inl e \<Rightarrow> Inl e | Inr x \<Rightarrow> f x)"

definition calculate_touch_matrix ::
    "u32 list \<Rightarrow> u32 list \<Rightarrow> u32 list \<Rightarrow> u32 list \<Rightarrow> fault + u32 list" where
  "calculate_touch_matrix displayX displayY touchX touchY =
     (let k = ((touchX ! 0 - touchX ! 2) * (touchY ! 1 - touchY ! 2)) -
              ((touchX ! 1 - touchX ! 2) * (touchY ! 0 - touchY ! 2));
          tmp = (((displayX ! 0 - displayX ! 2) * (touchY ! 1 - touchY ! 2)) -
                 ((displayX ! 1 - displayX ! 2) * (touchY ! 0 - touchY ! 2)))
      in bind_fault (sdiv64 (push_bit 16 (scast tmp)) (scast k)) (\<lambda>m0.
     (let tmp = (((touchX ! 0 - touchX ! 2) * (displayX ! 1 - displayX ! 2)) -
                 ((displayX ! 0 - displayX ! 2) * (touchX ! 1 - touchX ! 2)))
      in bind_fault (sdiv64 (push_bit 16 (scast tmp)) (scast k)) (\<lambda>m1.
     (let tmp = ((touchY ! 0 * (((touchX ! 2 * displayX ! 1) - (touchX ! 1 * displayX ! 2)))) +
                 (touchY ! 1 * (((touchX ! 0 * displayX ! 2) - (touchX ! 2 * displayX ! 0)))) +
                 (touchY ! 2 * (((touchX ! 1 * displayX ! 0) - (touchX ! 0 * displayX ! 1)))))
      in bind_fault (sdiv64 (push_bit 16 (scast tmp)) (scast k)) (\<lambda>m2.
     (let tmp = (((displayY ! 0 - displayY ! 2) * (touchY ! 1 - touchY ! 2)) -
                 ((displayY ! 1 - displayY ! 2) * (touchY ! 0 - touchY ! 2)))
      in bind_fault (sdiv64 (push_bit 16 (scast tmp)) (scast k)) (\<lambda>m3.
     (let tmp = (((touchX ! 0 - touchX ! 2) * (displayY ! 1 - displayY ! 2)) -
                 ((displayY ! 0 - displayY ! 2) * (touchX ! 1 - touchX ! 2)))
      in bind_fault (sdiv64 (push_bit 16 (scast tmp)) (scast k)) (\<lambda>m4.
     (let tmp = ((touchY ! 0 * (((touchX ! 2 * displayY ! 1) - (touchX ! 1 * displayY ! 2)))) +
                 (touchY ! 1 * (((touchX ! 0 * displayY ! 2) - (touchX ! 2 * displayY ! 0)))) +
                 (touchY ! 2 * (((touchX ! 1 * displayY ! 0) - (touchX ! 0 * displayY ! 1)))))
      in bind_fault (sdiv64 (push_bit 16 (scast tmp)) (scast k)) (\<lambda>m5.
         Inr [ucast m0, ucast m1, ucast m2, ucast m3, ucast m4, ucast m5 :: u32]))))))))))))"

text \<open>The \<^verbatim>\<open>do ... while (count < 6)\<close> loop that writes the matrix to the registers.\<close>

function Calibrate_Fixed_write :: "eve_h \<Rightarrow> u32 list \<Rightarrow> nat \<Rightarrow> eve_state \<Rightarrow> eve_state" where
  "Calibrate_Fixed_write h TransMatrix count s =
     (let s = wr32 (REG_TOUCH_TRANSFORM_A h + RAM_REG + word_of_nat (count * 4))
                   (TransMatrix ! count) s;
          count = count + 1
      in if count < 6 then Calibrate_Fixed_write h TransMatrix count s else s)"
  by pat_completeness auto
termination
  by (relation "measure (\<lambda>(h, TransMatrix, count, s). 6 - count)") auto

definition Calibrate_Fixed ::
    "eve_h \<Rightarrow> u32 \<Rightarrow> u32 \<Rightarrow> u32 \<Rightarrow> u32 \<Rightarrow> eve_state \<Rightarrow> fault + eve_state" where
  "Calibrate_Fixed h width_pixels height_pixels touch_x_max touch_y_max s =
     (let displayX = [0, width_pixels, width_pixels];
          displayY = [0, 0, height_pixels];
          touchX = [0, touch_x_max, touch_x_max];
          touchY = [0, 0, touch_y_max]
      in case calculate_touch_matrix displayX displayY touchX touchY of
           Inl e \<Rightarrow> Inl e
         | Inr TransMatrix \<Rightarrow> Inr (Calibrate_Fixed_write h TransMatrix 0 s))"

section \<open>Vocabulary of the properties\<close>

text \<open>
  The address bytes as the chip expects them: bits 16 to 21 of the address in the first
  byte, whose top bit marks a write and is clear for a read, then bits 8 to 15, then
  bits 0 to 7.
\<close>

definition write_intent_bytes :: "u32 \<Rightarrow> u8 list" where
  "write_intent_bytes a =
     [ucast (take_bit 6 (drop_bit 16 a)) OR 0x80, ucast (drop_bit 8 a), ucast a]"

definition read_intent_bytes :: "u32 \<Rightarrow> u8 list" where
  "read_intent_bytes a =
     [ucast (take_bit 6 (drop_bit 16 a)), ucast (drop_bit 8 a), ucast a]"

text \<open>Little-endian byte strings: the bytes of a value, and the value of a byte string.\<close>

definition le_bytes16 :: "u16 \<Rightarrow> u8 list" where
  "le_bytes16 v = [ucast v, ucast (drop_bit 8 v)]"

definition le_bytes32 :: "u32 \<Rightarrow> u8 list" where
  "le_bytes32 v = [ucast v, ucast (drop_bit 8 v), ucast (drop_bit 16 v), ucast (drop_bit 24 v)]"

fun le_value :: "u8 list \<Rightarrow> nat" where
  "le_value [] = 0"
| "le_value (b # bs) = unat b + 256 * le_value bs"

text \<open>
  The 16-bit value the chip answers with to a two-byte read that starts \<open>k\<close> bytes
  after the bytes read so far.
\<close>

definition dev16 :: "eve_state \<Rightarrow> nat \<Rightarrow> u16" where
  "dev16 s k = word_of_nat (le_value [miso s (nread s + k), miso s (nread s + k + 1)])"

text \<open>The write cursor is a multiple of 4 inside the FIFO window.\<close>

definition cursor_ok :: "eve_state \<Rightarrow> bool" where
  "cursor_ok s \<longleftrightarrow>
     4 dvd unat (FifoWriteLocation s) \<and> unat (FifoWriteLocation s) < FT_CMD_FIFO_SIZE"

text \<open>
  The determinant \<^verbatim>\<open>k\<close> of \<^verbatim>\<open>calculate_touch_matrix\<close>, the quotient
  \<^verbatim>\<open>((int64_t)tmp << 16) / k\<close> as a 32-bit value, and the bus events a run added.
\<close>

definition touch_det :: "u32 list \<Rightarrow> u32 list \<Rightarrow> s32" where
  "touch_det touchX touchY =
     ((touchX ! 0 - touchX ! 2) * (touchY ! 1 - touchY ! 2)) -
     ((touchX ! 1 - touchX ! 2) * (touchY ! 0 - touchY ! 2))"

definition fix16 :: "s32 \<Rightarrow> s32 \<Rightarrow> u32" where
  "fix16 tmp k = word_of_int ((sint tmp * 65536) sdiv sint k)"

definition written :: "eve_state \<Rightarrow> eve_state \<Rightarrow> spi_event list" where
  "written s s' = drop (length (bus s)) (bus s')"

text \<open>
  The chunking of \<^verbatim>\<open>CoProWrCmdBuf\<close> in the words of the specification: a length is cut
  into chunks of 512 bytes, the last one being the rest rounded up to a multiple of 4; for
  each chunk the uploader waits for 512 free bytes, writes the chunk in one transaction at
  \<^verbatim>\<open>RAM_CMD + FifoWriteLocation\<close>, advances the cursor by the chunk size modulo the
  FIFO size, and publishes the cursor.
\<close>

definition round_up4 :: "nat \<Rightarrow> nat" where
  "round_up4 n = (n + 3) div 4 * 4"

function chunk_sizes :: "nat \<Rightarrow> nat list" where
  "chunk_sizes n = (if 512 < n then 512 # chunk_sizes (n - 512) else [round_up4 n])"
  by pat_completeness auto
termination
  by (relation "measure id") auto

declare chunk_sizes.simps [simp del]

definition send_chunk :: "(nat \<Rightarrow> u8) \<Rightarrow> nat \<Rightarrow> nat \<Rightarrow> eve_state \<Rightarrow> eve_state" where
  "send_chunk mem buff sz s =
     s\<lparr>FifoWriteLocation := word_of_nat ((unat (FifoWriteLocation s) + sz) mod FT_CMD_FIFO_SIZE),
       bus := bus s @ [SPI_Enable]
                @ map SPI_Write (write_intent_bytes (ucast (FifoWriteLocation s) + RAM_CMD))
                @ [SPI_WriteBuffer (map mem [buff ..< buff + sz]), SPI_Disable]\<rparr>"

fun upload_chunks ::
    "eve_h \<Rightarrow> (nat \<Rightarrow> u8) \<Rightarrow> nat \<Rightarrow> nat list \<Rightarrow> eve_state \<Rightarrow> eve_state option" where
  "upload_chunks h mem buff [] s = Some s"
| "upload_chunks h mem buff (sz # szs) s =
     (case Wait4CoProFIFO h WorkBuffSz s of
        None \<Rightarrow> None
      | Some s1 \<Rightarrow> upload_chunks h mem (buff + sz) szs (UpdateFIFO h (send_chunk mem buff sz s1)))"

text \<open>The sizes of the buffers written with \<^verbatim>\<open>HAL_SPI_WriteBuffer\<close>, in order.\<close>

fun chunk_lengths :: "spi_event list \<Rightarrow> nat list" where
  "chunk_lengths [] = []"
| "chunk_lengths (SPI_WriteBuffer bs # es) = length bs # chunk_lengths es"
| "chunk_lengths (e # es) = chunk_lengths es"

text \<open>
  The free-space readings of a wait: \<open>polls h n s\<close> is the state after \<open>n\<close> calls
  of \<^verbatim>\<open>CoProFIFO_FreeSpace\<close> in a row, and \<open>reading h n s\<close> is the value the call
  after them returns, the readings being numbered from 0.
\<close>

fun polls :: "eve_h \<Rightarrow> nat \<Rightarrow> eve_state \<Rightarrow> eve_state" where
  "polls h 0 s = s"
| "polls h (Suc n) s = polls h n (snd (CoProFIFO_FreeSpace h s))"

definition reading :: "eve_h \<Rightarrow> nat \<Rightarrow> eve_state \<Rightarrow> nat" where
  "reading h n s = unat (fst (CoProFIFO_FreeSpace h (polls h n s)))"

text \<open>
  The calibration in exact integers: the determinant and the three Cramer numerators of a
  row as integers that do not wrap, the quotient \<open>(n << 16) / k\<close> truncated towards
  zero, and what fits a signed 32-bit variable. \<open>fixed_point m r x y\<close> applies the
  row of the matrix that starts at index \<open>r\<close> (0 for X, 3 for Y) to the touch point
  \<open>(x, y)\<close>, reading the coefficients as signed 16.16 values: the result is the
  display coordinate in units of 1/65536 pixel. \<open>within_one_pixel v d\<close> says that such
  a value is at most one pixel away from the display coordinate \<open>d\<close>.
\<close>

definition fits32 :: "int \<Rightarrow> bool" where
  "fits32 v \<longleftrightarrow> - (2 ^ 31) \<le> v \<and> v < 2 ^ 31"

definition det_int :: "u32 list \<Rightarrow> u32 list \<Rightarrow> int" where
  "det_int tX tY =
     (uint (tX ! 0) - uint (tX ! 2)) * (uint (tY ! 1) - uint (tY ! 2)) -
     (uint (tX ! 1) - uint (tX ! 2)) * (uint (tY ! 0) - uint (tY ! 2))"

definition num_a :: "u32 list \<Rightarrow> u32 list \<Rightarrow> int" where
  "num_a d tY =
     (uint (d ! 0) - uint (d ! 2)) * (uint (tY ! 1) - uint (tY ! 2)) -
     (uint (d ! 1) - uint (d ! 2)) * (uint (tY ! 0) - uint (tY ! 2))"

definition num_b :: "u32 list \<Rightarrow> u32 list \<Rightarrow> int" where
  "num_b tX d =
     (uint (tX ! 0) - uint (tX ! 2)) * (uint (d ! 1) - uint (d ! 2)) -
     (uint (d ! 0) - uint (d ! 2)) * (uint (tX ! 1) - uint (tX ! 2))"

definition num_c :: "u32 list \<Rightarrow> u32 list \<Rightarrow> u32 list \<Rightarrow> int" where
  "num_c tX tY d =
     uint (tY ! 0) * (uint (tX ! 2) * uint (d ! 1) - uint (tX ! 1) * uint (d ! 2)) +
     uint (tY ! 1) * (uint (tX ! 0) * uint (d ! 2) - uint (tX ! 2) * uint (d ! 0)) +
     uint (tY ! 2) * (uint (tX ! 1) * uint (d ! 0) - uint (tX ! 0) * uint (d ! 1))"

definition q16 :: "int \<Rightarrow> int \<Rightarrow> int" where
  "q16 n k = (n * 65536) sdiv k"

definition fixed_point :: "u32 list \<Rightarrow> nat \<Rightarrow> int \<Rightarrow> int \<Rightarrow> int" where
  "fixed_point m r x y = sint (m ! r) * x + sint (m ! (r + 1)) * y + sint (m ! (r + 2))"

definition within_one_pixel :: "int \<Rightarrow> int \<Rightarrow> bool" where
  "within_one_pixel v d \<longleftrightarrow> \<bar>v - 65536 * d\<bar> \<le> 65536"

definition coord_ok :: "u32 \<Rightarrow> bool" where
  "coord_ok c \<longleftrightarrow> unat c \<le> 2000"

text \<open>
  The bus log as the chip sees it. A transaction runs from \<open>SPI_Enable\<close> to
  \<open>SPI_Disable\<close>; its first three bytes sent are the address with the intent bit, the
  bytes sent after them are the payload of a write, the bytes received are the data of a
  read. \<open>reg_ops\<close> lists the register accesses of a log in order.
\<close>

datatype reg_op = RegRead u32 "u8 list" | RegWrite u32 "u8 list" | Malformed

fun transactions ::
    "(u8 list \<times> u8 list) option \<Rightarrow> spi_event list \<Rightarrow> (u8 list \<times> u8 list) list" where
  "transactions cur [] = []"
| "transactions cur (SPI_Enable # es) = transactions (Some ([], [])) es"
| "transactions (Some (tx, rx)) (SPI_Write b # es) = transactions (Some (tx @ [b], rx)) es"
| "transactions (Some (tx, rx)) (SPI_WriteBuffer bs # es) = transactions (Some (tx @ bs, rx)) es"
| "transactions (Some (tx, rx)) (SPI_ReadBuffer bs # es) = transactions (Some (tx, rx @ bs)) es"
| "transactions (Some (tx, rx)) (SPI_Disable # es) = (tx, rx) # transactions None es"
| "transactions cur (e # es) = transactions cur es"

definition addr22 :: "u8 list \<Rightarrow> u32" where
  "addr22 tx = push_bit 16 (ucast (take_bit 6 (tx ! 0))) OR push_bit 8 (ucast (tx ! 1))
               OR ucast (tx ! 2)"

definition reg_op_of :: "u8 list \<times> u8 list \<Rightarrow> reg_op" where
  "reg_op_of t =
     (if length (fst t) < 3 then Malformed
      else if bit (fst t ! 0) 7 then RegWrite (addr22 (fst t)) (drop 3 (fst t))
      else RegRead (addr22 (fst t)) (snd t))"

definition reg_ops :: "spi_event list \<Rightarrow> reg_op list" where
  "reg_ops es = map reg_op_of (transactions None es)"

fun is_read :: "reg_op \<Rightarrow> bool" where
  "is_read (RegRead a bs) = True"
| "is_read op = False"

definition regs_ok :: "eve_h \<Rightarrow> bool" where
  "regs_ok h \<longleftrightarrow>
     REG_CMD_READ h + RAM_REG < 2 ^ 22 \<and> REG_CMD_WRITE h + RAM_REG < 2 ^ 22 \<and>
     REG_CMD_DL h + RAM_REG < 2 ^ 22 \<and> REG_CPU_RESET h + RAM_REG < 2 ^ 22 \<and>
     REG_COPRO_PATCH_PTR h + RAM_REG < 2 ^ 22"

text \<open>
  A chip for the examples: it answers the reads with the given bytes, in order, and with
  zeros after them. The register offsets are those of the FT81x data sheet.
\<close>

definition boot :: "u8 list \<Rightarrow> eve_state" where
  "boot answers =
     \<lparr>FifoWriteLocation = 0, bus = [],
      miso = (\<lambda>i. if i < length answers then answers ! i else 0), nread = 0\<rparr>"

definition ft81x :: eve_h where
  "ft81x = \<lparr>REG_CMD_READ = 0xF8, REG_CMD_WRITE = 0xFC, REG_CMD_DL = 0x100,
            REG_CPU_RESET = 0x20, REG_COPRO_PATCH_PTR = 0x7162,
            REG_TOUCH_TRANSFORM_A = 0x150, RAM_ERR_REPORT = 0x309800\<rparr>"

text \<open>
  A chip in the fault state, for the examples: two words are enqueued, then the chip
  answers the poll of its read cursor with the sentinel \<open>0xFFF\<close>, the error string is
  empty, the patch pointer reads \<open>0x12345678\<close> and the write cursor reads 0.
  \<open>closed_reads\<close> says of a piece of log that it consists of whole transactions, all
  of them reads.
\<close>

definition faulted_chip :: eve_state where
  "faulted_chip =
     Send_CMDs [1, 2] (Eve_Reset (boot [0xFF, 0x0F, 0x00, 0x78, 0x56, 0x34, 0x12, 0x00, 0x00]))"

definition closed_reads :: "spi_event list \<Rightarrow> (u8 list \<times> u8 list) list \<Rightarrow> bool" where
  "closed_reads R T \<longleftrightarrow>
     (\<forall>rest. transactions None (R @ rest) = T @ transactions None rest)
     \<and> list_all (\<lambda>t. is_read (reg_op_of t)) T"


text \<open>A host memory for the examples: the byte at position \<open>i\<close> is \<open>i mod 256\<close>.\<close>

definition ramp :: "nat \<Rightarrow> u8" where
  "ramp i = word_of_nat i"

section \<open>Register access: what goes over the bus\<close>

lemmas HAL_defs = HAL_SPI_Enable_def HAL_SPI_Disable_def HAL_SPI_Write_def
  HAL_SPI_WriteBuffer_def HAL_SPI_ReadBuffer_def HAL_Delay_def Log_def

lemma and_ff_take_bit: "(x :: 'a::len word) AND 0xff = take_bit 8 x"
proof -
  have "(0xff :: 'a word) = mask 8" by (simp add: mask_eq_exp_minus_1)
  then show ?thesis by (simp add: take_bit_eq_mask)
qed

lemma and_3f_take_bit: "(x :: 'a::len word) AND 0x3F = take_bit 6 x"
proof -
  have "(0x3F :: 'a word) = mask 6" by (simp add: mask_eq_exp_minus_1)
  then show ?thesis by (simp add: take_bit_eq_mask)
qed

lemma ucast_and_ff: "(ucast (x AND 0xff :: 'a::len word) :: u8) = ucast x"
  unfolding and_ff_take_bit by (rule bit_word_eqI) (auto simp: bit_simps)

lemma hi_read:
  "(ucast (drop_bit 16 (a::u32) AND 0x3F) :: u8) = ucast (take_bit 6 (drop_bit 16 a))"
  unfolding and_3f_take_bit ..

lemma hi_write:
  assumes "(a::u32) < 2 ^ 22"
  shows "(ucast (drop_bit 16 a OR 0x80) :: u8) = ucast (take_bit 6 (drop_bit 16 a)) OR 0x80"
proof -
  have t: "take_bit 22 a = a" using assms by (simp add: less_mask_eq take_bit_eq_mask)
  have hi: "m < 22" if "bit a m" for m
    using that bit_take_bit_iff [of 22 a m] unfolding t by simp
  have e: "(0x80 :: 'b::len word) = 2 ^ 7" by simp
  show ?thesis unfolding e
  proof (rule bit_word_eqI)
    fix n assume "n < LENGTH(8)"
    then show "bit (ucast (drop_bit 16 a OR 2 ^ 7) :: u8) n
               = bit (ucast (take_bit 6 (drop_bit 16 a)) OR 2 ^ 7 :: u8) n"
      using hi [of "16 + n"] by (auto simp: bit_simps)
  qed
qed

lemma upt_2: "[n ..< n + 2] = [n, n + 1]"
  by (simp add: numeral_2_eq_2 upt_conv_Cons)

lemma upt_4: "[n ..< n + 4] = [n, n + 1, n + 2, n + 3]"
  by (simp add: numeral_eq_Suc upt_conv_Cons)

lemma wr32_eq:
  "wr32 a v s = s\<lparr>bus := bus s @
     [SPI_Enable,
      SPI_WriteBuffer ([ucast (drop_bit 16 a OR 0x80), ucast (drop_bit 8 a), ucast a] @ le_bytes32 v),
      SPI_Disable]\<rparr>"
  by (simp add: wr32_def HAL_defs Let_def le_bytes32_def ucast_and_ff)

lemma wr16_eq:
  "wr16 a v s = s\<lparr>bus := bus s @ [SPI_Enable] @
     map SPI_Write ([ucast (drop_bit 16 a OR 0x80), ucast (drop_bit 8 a), ucast a] @ le_bytes16 v)
     @ [SPI_Disable]\<rparr>"
  by (simp add: wr16_def HAL_defs Let_def le_bytes16_def ucast_and_ff)

lemma wr8_eq:
  "wr8 a v s = s\<lparr>bus := bus s @ [SPI_Enable] @
     map SPI_Write ([ucast (drop_bit 16 a OR 0x80), ucast (drop_bit 8 a), ucast a] @ [v])
     @ [SPI_Disable]\<rparr>"
  by (simp add: wr8_def HAL_defs Let_def)

lemma rd8_eq:
  "rd8 a s = (miso s (nread s),
     s\<lparr>bus := bus s @ [SPI_Enable] @ map SPI_Write (read_intent_bytes a)
                @ [SPI_ReadBuffer [miso s (nread s)], SPI_Disable],
       nread := nread s + 1\<rparr>)"
  by (simp add: rd8_def HAL_defs Let_def read_intent_bytes_def ucast_and_ff hi_read)

lemma rd16_eq:
  "rd16 a s = (word_of_nat (le_value [miso s (nread s), miso s (nread s + 1)]),
     s\<lparr>bus := bus s @ [SPI_Enable] @ map SPI_Write (read_intent_bytes a)
                @ [SPI_ReadBuffer [miso s (nread s), miso s (nread s + 1)], SPI_Disable],
       nread := nread s + 2\<rparr>)"
  by (simp add: rd16_def HAL_defs Let_def read_intent_bytes_def ucast_and_ff hi_read upt_2
        push_bit_eq_mult)

lemma rd32_eq:
  "rd32 a s =
     (word_of_nat (le_value [miso s (nread s), miso s (nread s + 1), miso s (nread s + 2),
                             miso s (nread s + 3)]),
      s\<lparr>bus := bus s @ [SPI_Enable, SPI_WriteBuffer (read_intent_bytes a),
                SPI_ReadBuffer [miso s (nread s), miso s (nread s + 1), miso s (nread s + 2),
                                miso s (nread s + 3)], SPI_Disable],
        nread := nread s + 4\<rparr>)"
  by (simp add: rd32_def HAL_defs Let_def read_intent_bytes_def ucast_and_ff hi_read upt_4
        push_bit_eq_mult)

text \<open>
  C8. Every register write is one transaction, opened and closed once, that sends the
  three address bytes (bits 16 to 21 with the write bit set, bits 8 to 15, bits 0 to 7 of a
  22-bit address) and then the value, least-significant byte first; every register read is
  one transaction that sends the three address bytes with the top bits of the first byte
  clear and then reads the value, least-significant byte first. Nothing but the bus log
  (and, for a read, the count of bytes read) changes.
\<close>

theorem register_access_framing:
  assumes "address < 2 ^ 22"
  shows "wr8 address v8 s =
           s\<lparr>bus := bus s @ [SPI_Enable] @ map SPI_Write (write_intent_bytes address @ [v8])
                      @ [SPI_Disable]\<rparr>
       \<and> wr16 address v16 s =
           s\<lparr>bus := bus s @ [SPI_Enable]
                      @ map SPI_Write (write_intent_bytes address @ le_bytes16 v16)
                      @ [SPI_Disable]\<rparr>
       \<and> wr32 address v32 s =
           s\<lparr>bus := bus s @ [SPI_Enable,
                               SPI_WriteBuffer (write_intent_bytes address @ le_bytes32 v32),
                               SPI_Disable]\<rparr>
       \<and> rd8 address s =
           (miso s (nread s),
            s\<lparr>bus := bus s @ [SPI_Enable] @ map SPI_Write (read_intent_bytes address)
                       @ [SPI_ReadBuffer [miso s (nread s)], SPI_Disable],
              nread := nread s + 1\<rparr>)
       \<and> rd16 address s =
           (word_of_nat (le_value [miso s (nread s), miso s (nread s + 1)]),
            s\<lparr>bus := bus s @ [SPI_Enable] @ map SPI_Write (read_intent_bytes address)
                       @ [SPI_ReadBuffer [miso s (nread s), miso s (nread s + 1)], SPI_Disable],
              nread := nread s + 2\<rparr>)
       \<and> rd32 address s =
           (word_of_nat (le_value [miso s (nread s), miso s (nread s + 1),
                                   miso s (nread s + 2), miso s (nread s + 3)]),
            s\<lparr>bus := bus s @ [SPI_Enable, SPI_WriteBuffer (read_intent_bytes address),
                                SPI_ReadBuffer [miso s (nread s), miso s (nread s + 1),
                                                miso s (nread s + 2), miso s (nread s + 3)],
                                SPI_Disable],
              nread := nread s + 4\<rparr>)"
  using hi_write [OF assms]
  by (simp add: wr8_eq wr16_eq wr32_eq rd8_eq rd16_eq rd32_eq write_intent_bytes_def)

theorem register_access_framing_witness:
  "(0x3020FC :: u32) < 2 ^ 22
   \<and> bus (wr16 0x3020FC 0x0123 (boot [])) =
       [SPI_Enable, SPI_Write 0xB0, SPI_Write 0x20, SPI_Write 0xFC,
        SPI_Write 0x23, SPI_Write 0x01, SPI_Disable]
   \<and> bus (wr32 0x308004 0xFFFFFF00 (boot [])) =
       [SPI_Enable, SPI_WriteBuffer [0xB0, 0x80, 0x04, 0x00, 0xFF, 0xFF, 0xFF], SPI_Disable]
   \<and> rd16 0x3020F8 (boot [0xFF, 0x0F]) =
       (0xFFF, (boot [0xFF, 0x0F])
                 \<lparr>bus := [SPI_Enable, SPI_Write 0x30, SPI_Write 0x20, SPI_Write 0xF8,
                          SPI_ReadBuffer [0xFF, 0x0F], SPI_Disable],
                  nread := 2\<rparr>)"
  using register_access_framing [of "0x3020FC" _ "boot []" "0x0123"]
        register_access_framing [of "0x308004" _ "boot []" _ "0xFFFFFF00"]
        register_access_framing [of "0x3020F8" _ "boot [0xFF, 0x0F]"]
  by (simp add: write_intent_bytes_def read_intent_bytes_def le_bytes16_def le_bytes32_def
        boot_def)

section \<open>The write cursor\<close>

lemma FifoWriteLocation_Send_CMD:
  "FifoWriteLocation (Send_CMD d s) = (FifoWriteLocation s + 4) mod 4096"
  by (simp add: Send_CMD_def wr32_eq Let_def FT_CMD_SIZE_def FT_CMD_FIFO_SIZE_def)

lemma cursor_ok_Send_CMD: "cursor_ok s \<Longrightarrow> cursor_ok (Send_CMD d s)"
proof -
  assume ok: "cursor_ok s"
  let ?w = "FifoWriteLocation s"
  have u: "unat ((?w + 4) mod 4096) = (unat ?w + 4) mod 4096"
    by (simp add: unat_mod unat_word_ariths mod_mod_cancel)
  have "4 dvd (unat ?w + 4) mod 4096"
    using ok by (simp add: cursor_ok_def dvd_mod_iff)
  then show ?thesis
    by (simp add: cursor_ok_def FifoWriteLocation_Send_CMD u FT_CMD_FIFO_SIZE_def)
qed

lemma cursor_ok_Send_CMDs: "cursor_ok s \<Longrightarrow> cursor_ok (Send_CMDs ds s)"
  by (induction ds arbitrary: s) (simp_all add: cursor_ok_Send_CMD)

text \<open>
  C2. From the reset state, after any finite sequence of \<^verbatim>\<open>Send_CMD\<close> calls the write
  cursor is a multiple of 4 and lies in the FIFO window of 4096 bytes.
\<close>

theorem write_cursor_aligned_in_range: "cursor_ok (Send_CMDs ds (Eve_Reset s))"
  by (rule cursor_ok_Send_CMDs)
     (simp add: cursor_ok_def Eve_Reset_def HAL_Eve_Reset_HW_def FT_CMD_FIFO_SIZE_def)

section \<open>Free space\<close>

lemma Send_CMD_eq:
  "Send_CMD d s =
     s\<lparr>FifoWriteLocation := (FifoWriteLocation s + 4) mod 4096,
       bus := bus s @
         [SPI_Enable,
          SPI_WriteBuffer ([ucast (drop_bit 16 (ucast (FifoWriteLocation s) + RAM_CMD) OR 0x80),
                            ucast (drop_bit 8 (ucast (FifoWriteLocation s) + RAM_CMD)),
                            ucast (ucast (FifoWriteLocation s) + RAM_CMD)] @ le_bytes32 d),
          SPI_Disable]\<rparr>"
  by (simp add: Send_CMD_def wr32_eq Let_def FT_CMD_SIZE_def FT_CMD_FIFO_SIZE_def)

lemma miso_Send_CMDs [simp]: "miso (Send_CMDs ds s) = miso s"
  by (induction ds arbitrary: s) (simp_all add: Send_CMD_eq)

lemma nread_Send_CMDs [simp]: "nread (Send_CMDs ds s) = nread s"
  by (induction ds arbitrary: s) (simp_all add: Send_CMD_eq)

lemma dev16_Send_CMDs [simp]: "dev16 (Send_CMDs ds s) k = dev16 s k"
  by (simp add: dev16_def)

lemma free_arith:
  fixes rd wr :: u16
  assumes "rd \<le> wr"
  shows "(word_of_int (4092 - uint (word_of_int ((uint wr - uint rd) smod 4096) :: u16)) :: u16)
         = 4092 - (wr - rd) mod 4096"
proof -
  have nn: "0 \<le> uint wr - uint rd" using assms by (simp add: word_le_def)
  then have sm: "(uint wr - uint rd) smod 4096 = (uint wr - uint rd) mod 4096"
    by (simp add: signed_modulo_int_def sgn_if)
  have "uint (wr - rd) = uint wr - uint rd" using assms by (simp add: uint_minus_simple_alt)
  then have "uint ((wr - rd) mod 4096) = (uint wr - uint rd) mod 4096"
    by (simp add: uint_mod)
  then have "(word_of_int ((uint wr - uint rd) mod 4096) :: u16) = (wr - rd) mod 4096"
    by (metis word_of_int_uint)
  then show ?thesis unfolding sm by (simp add: wi_hom_sub [symmetric] del: of_int_diff)
qed

lemma CoProFIFO_FreeSpace_fst:
  "fst (CoProFIFO_FreeSpace h s) =
     word_of_int (4092 - uint (word_of_int ((uint (dev16 s 2) - uint (dev16 s 0)) smod 4096) :: u16))"
  by (simp add: CoProFIFO_FreeSpace_def rd16_eq Let_def dev16_def FT_CMD_FIFO_SIZE_def
        numeral_3_eq_3 add.commute)

text \<open>
  C1, as the code has it. \<^verbatim>\<open>CoProFIFO_FreeSpace\<close> reads the chip's read cursor and the
  chip's write-cursor register, not the host's \<^verbatim>\<open>FifoWriteLocation\<close>. Whenever the
  register value read for the write cursor is at least the one read for the read cursor,
  the result is \<open>4096 - 4 - ((write - read) mod 4096)\<close>; and enqueueing words without
  publishing them leaves the result as it was.
\<close>

theorem freeSpace_reads_device_cursors:
  assumes "dev16 s 0 \<le> dev16 s 2"
  shows "fst (CoProFIFO_FreeSpace h s) = 4096 - 4 - (dev16 s 2 - dev16 s 0) mod 4096
       \<and> fst (CoProFIFO_FreeSpace h (Send_CMDs ds s)) = fst (CoProFIFO_FreeSpace h s)"
  using free_arith [OF assms] by (simp add: CoProFIFO_FreeSpace_fst)

theorem freeSpace_reads_device_cursors_witness:
  "dev16 (Eve_Reset (boot [0x10, 0x00, 0x20, 0x01])) 0
     \<le> dev16 (Eve_Reset (boot [0x10, 0x00, 0x20, 0x01])) 2
   \<and> fst (CoProFIFO_FreeSpace ft81x (Eve_Reset (boot [0x10, 0x00, 0x20, 0x01]))) = 3820
   \<and> fst (CoProFIFO_FreeSpace ft81x
            (Send_CMDs [7, 8, 9] (Eve_Reset (boot [0x10, 0x00, 0x20, 0x01])))) = 3820"
proof -
  have h: "dev16 (Eve_Reset (boot [0x10, 0x00, 0x20, 0x01])) 0
             \<le> dev16 (Eve_Reset (boot [0x10, 0x00, 0x20, 0x01])) 2"
    by (simp add: dev16_def Eve_Reset_def HAL_Eve_Reset_HW_def boot_def)
  have v: "(dev16 (Eve_Reset (boot [0x10, 0x00, 0x20, 0x01])) 2
            - dev16 (Eve_Reset (boot [0x10, 0x00, 0x20, 0x01])) 0) mod 4096 = 272"
    by (simp add: dev16_def Eve_Reset_def HAL_Eve_Reset_HW_def boot_def)
  show ?thesis
    using h freeSpace_reads_device_cursors [OF h, of ft81x "[7, 8, 9]"] unfolding v by simp
qed

text \<open>
  The claim as stated fails: two words (8 bytes) are enqueued and not published, the chip
  reports both of its cursors as 0, and the free space is still 4092, not
  \<open>4096 - 4 - ((8 - 0) mod 4096) = 4084\<close>.
\<close>

theorem freeSpace_host_cursor_counterexample:
  "FifoWriteLocation (Send_CMDs [0, 0] (Eve_Reset (boot []))) = 8
   \<and> dev16 (Send_CMDs [0, 0] (Eve_Reset (boot []))) 0 = 0
   \<and> fst (CoProFIFO_FreeSpace ft81x (Send_CMDs [0, 0] (Eve_Reset (boot [])))) = 4092
   \<and> fst (CoProFIFO_FreeSpace ft81x (Send_CMDs [0, 0] (Eve_Reset (boot []))))
       \<noteq> 4096 - 4 - (FifoWriteLocation (Send_CMDs [0, 0] (Eve_Reset (boot [])))
                      - dev16 (Send_CMDs [0, 0] (Eve_Reset (boot []))) 0) mod 4096"
  by (simp add: CoProFIFO_FreeSpace_fst dev16_def Eve_Reset_def HAL_Eve_Reset_HW_def boot_def
        Send_CMD_eq)

text \<open>
  When the chip's write-cursor register is below its read cursor the promoted difference
  is negative and the truncating remainder keeps the sign: with the read cursor at 4 and
  the write cursor at 0 the FIFO holds 4092 bytes, and the function returns 4096.
\<close>

lemma freeSpace_wrapped_example:
  "fst (CoProFIFO_FreeSpace ft81x (boot [0x04, 0x00, 0x00, 0x00])) = 4096"
  by (simp add: CoProFIFO_FreeSpace_fst dev16_def boot_def signed_modulo_int_def)

section \<open>Touch calibration: the fixed matrix\<close>

lemma scast_eq_0: "(scast (k :: s32) :: s64) = 0 \<longleftrightarrow> k = 0"
proof -
  have "sint (scast k :: s64) = sint k" by (simp add: sint_up_scast is_up)
  then show ?thesis by (metis signed_eq_0_iff)
qed

lemma sint_shift16: "sint (push_bit 16 (scast (tmp :: s32) :: s64)) = sint tmp * 65536"
proof -
  have up: "sint (scast tmp :: s64) = sint tmp" by (simp add: sint_up_scast is_up)
  have lo: "- (2 ^ 31) \<le> sint tmp" using sint_ge [of tmp] by simp
  have hi: "sint tmp < 2 ^ 31" using sint_lt [of tmp] by simp
  have "signed_take_bit 63 (sint tmp * 65536) = sint tmp * 65536"
    using lo hi by (intro signed_take_bit_int_eq_self) auto
  then show ?thesis
    by (subst signed_push_bit_eq) (simp add: up push_bit_eq_mult)
qed

lemma ucast_word_of_int_64_32: "(ucast (word_of_int x :: s64) :: u32) = word_of_int x"
  by (simp add: unsigned_of_int word_of_int_eq_iff min_def)

lemma coef_eq:
  "k \<noteq> 0 \<Longrightarrow>
   bind_fault (sdiv64 (push_bit 16 (scast (tmp :: s32))) (scast (k :: s32))) f =
     f (word_of_int ((sint tmp * 65536) sdiv sint k))"
  by (simp add: bind_fault_def sdiv64_def scast_eq_0 sint_shift16 sint_up_scast is_up)

lemma coef_zero:
  "bind_fault (sdiv64 a 0) f = Inl DivideByZero"
  by (simp add: bind_fault_def sdiv64_def)

lemma calculate_touch_matrix_zero:
  "touch_det touchX touchY = 0 \<Longrightarrow>
   calculate_touch_matrix displayX displayY touchX touchY = Inl DivideByZero"
  by (simp add: calculate_touch_matrix_def touch_det_def Let_def coef_zero)

lemma calculate_touch_matrix_nonzero:
  "touch_det touchX touchY \<noteq> 0 \<Longrightarrow>
   calculate_touch_matrix displayX displayY touchX touchY =
     Inr [fix16 (((displayX ! 0 - displayX ! 2) * (touchY ! 1 - touchY ! 2)) -
                 ((displayX ! 1 - displayX ! 2) * (touchY ! 0 - touchY ! 2)))
                (touch_det touchX touchY),
          fix16 (((touchX ! 0 - touchX ! 2) * (displayX ! 1 - displayX ! 2)) -
                 ((displayX ! 0 - displayX ! 2) * (touchX ! 1 - touchX ! 2)))
                (touch_det touchX touchY),
          fix16 ((touchY ! 0 * (((touchX ! 2 * displayX ! 1) - (touchX ! 1 * displayX ! 2)))) +
                 (touchY ! 1 * (((touchX ! 0 * displayX ! 2) - (touchX ! 2 * displayX ! 0)))) +
                 (touchY ! 2 * (((touchX ! 1 * displayX ! 0) - (touchX ! 0 * displayX ! 1)))))
                (touch_det touchX touchY),
          fix16 (((displayY ! 0 - displayY ! 2) * (touchY ! 1 - touchY ! 2)) -
                 ((displayY ! 1 - displayY ! 2) * (touchY ! 0 - touchY ! 2)))
                (touch_det touchX touchY),
          fix16 (((touchX ! 0 - touchX ! 2) * (displayY ! 1 - displayY ! 2)) -
                 ((displayY ! 0 - displayY ! 2) * (touchX ! 1 - touchX ! 2)))
                (touch_det touchX touchY),
          fix16 ((touchY ! 0 * (((touchX ! 2 * displayY ! 1) - (touchX ! 1 * displayY ! 2)))) +
                 (touchY ! 1 * (((touchX ! 0 * displayY ! 2) - (touchX ! 2 * displayY ! 0)))) +
                 (touchY ! 2 * (((touchX ! 1 * displayY ! 0) - (touchX ! 0 * displayY ! 1)))))
                (touch_det touchX touchY)]"
  unfolding calculate_touch_matrix_def touch_det_def Let_def fix16_def
  by (simp add: coef_eq ucast_word_of_int_64_32)

text \<open>
  C6. \<^verbatim>\<open>calculate_touch_matrix\<close> never tests \<^verbatim>\<open>k\<close>: it returns a matrix of six
  coefficients exactly when \<^verbatim>\<open>k\<close> is not zero, each of its six divisions having the
  divisor \<^verbatim>\<open>k\<close>, and it divides by zero exactly when \<^verbatim>\<open>k\<close> is zero, as for the
  collinear touch points (0,0), (1,1), (2,2).
\<close>

theorem determinant_unchecked:
  "(case calculate_touch_matrix displayX displayY touchX touchY of
      Inl e \<Rightarrow> e = DivideByZero \<and> touch_det touchX touchY = 0
    | Inr m \<Rightarrow> length m = 6 \<and> touch_det touchX touchY \<noteq> 0)
   \<and> touch_det [0, 1, 2] [0, 1, 2] = 0
   \<and> calculate_touch_matrix [0, 100, 200] [0, 100, 200] [0, 1, 2] [0, 1, 2] = Inl DivideByZero"
proof -
  have a: "(case calculate_touch_matrix displayX displayY touchX touchY of
      Inl e \<Rightarrow> e = DivideByZero \<and> touch_det touchX touchY = 0
    | Inr m \<Rightarrow> length m = 6 \<and> touch_det touchX touchY \<noteq> 0)"
  proof (cases "touch_det touchX touchY = 0")
    case True
    then show ?thesis by (simp add: calculate_touch_matrix_zero)
  next
    case False
    then show ?thesis by (simp add: calculate_touch_matrix_nonzero)
  qed
  have b: "touch_det [0, 1, 2] [0, 1, 2] = 0" by (simp add: touch_det_def)
  show ?thesis using a b by (simp add: calculate_touch_matrix_zero)
qed


lemma Calibrate_Fixed_write_eq:
  "Calibrate_Fixed_write h m 0 s =
     wr32 (REG_TOUCH_TRANSFORM_A h + RAM_REG + 20) (m ! 5)
    (wr32 (REG_TOUCH_TRANSFORM_A h + RAM_REG + 16) (m ! 4)
    (wr32 (REG_TOUCH_TRANSFORM_A h + RAM_REG + 12) (m ! 3)
    (wr32 (REG_TOUCH_TRANSFORM_A h + RAM_REG + 8) (m ! 2)
    (wr32 (REG_TOUCH_TRANSFORM_A h + RAM_REG + 4) (m ! 1)
    (wr32 (REG_TOUCH_TRANSFORM_A h + RAM_REG) (m ! 0) s)))))"
  by (simp add: Let_def eval_nat_numeral)




lemma fix16_zero [simp]: "fix16 0 k = 0"
  by (simp add: fix16_def)





lemma bus_Calibrate_Fixed_write:
  "bus (Calibrate_Fixed_write h m 0 s) = bus s @ bus (Calibrate_Fixed_write h m 0 (boot []))"
  by (simp add: Calibrate_Fixed_write_eq wr32_eq boot_def del: Calibrate_Fixed_write.simps)

text \<open>
  C7. Two runs of \<^verbatim>\<open>Calibrate_Fixed\<close> with the same four arguments, from any two
  states, put the same bytes on the bus (or both divide by zero): what is computed and
  written depends on the arguments alone.
\<close>

theorem Calibrate_Fixed_pure:
  "map_sum id (written s1) (Calibrate_Fixed h width_pixels height_pixels touch_x_max touch_y_max s1)
   = map_sum id (written s2) (Calibrate_Fixed h width_pixels height_pixels touch_x_max touch_y_max s2)"
  by (simp add: Calibrate_Fixed_def written_def bus_Calibrate_Fixed_write [of _ _ s1]
        bus_Calibrate_Fixed_write [of _ _ s2] split: sum.split del: Calibrate_Fixed_write.simps)


section \<open>Bulk transfer: chunks\<close>

lemma and_ffc: "(x::u32) AND 0xFFC = push_bit 2 (take_bit 10 (drop_bit 2 x))"
proof -
  have e: "(0xFFC :: u32) = push_bit 2 (mask 10)" by (simp add: mask_eq_exp_minus_1)
  have r: "Suc (Suc (n - 2)) = n" if "2 \<le> n" for n :: nat using that by arith
  show ?thesis unfolding e
    by (rule bit_word_eqI) (auto simp: bit_simps r)
qed

lemma unat_and_ffc: "unat ((x::u32) AND 0xFFC) = (unat x div 4) mod 1024 * 4"
proof -
  have "unat (push_bit 2 (take_bit 10 (drop_bit 2 x))) = (unat x div 4 mod 1024 * 4) mod 2 ^ 32"
    by (simp add: unsigned_push_bit_eq unsigned_take_bit_eq unsigned_drop_bit_eq
        take_bit_eq_mod drop_bit_eq_div push_bit_eq_mult unat_word_ariths unat_div unat_mod
        mod_mod_cancel)
  moreover have "unat x div 4 mod 1024 * 4 < 2 ^ 32"
  proof -
    have "unat x div 4 mod 1024 < 1024" by simp
    then show ?thesis by simp
  qed
  ultimately show ?thesis unfolding and_ffc by simp
qed

lemma unat_round:
  fixes count :: u32
  assumes "unat count \<le> 512"
  shows "unat ((count + 3) AND 0xFFC) = round_up4 (unat count)"
proof -
  have "unat (count + 3) = unat count + 3"
    using assms by (simp add: unat_word_ariths)
  then show ?thesis using assms by (simp add: unat_and_ffc round_up4_def)
qed

lemma sint_small:
  fixes c :: u32
  assumes "unat c < 2 ^ 31"
  shows "sint c = int (unat c)"
proof -
  have g: "sint (word_of_nat n :: u32) = signed_take_bit 31 (int n)" for n
    by (simp add: signed_of_nat)
  have "sint c = signed_take_bit 31 (int (unat c))"
    using g [of "unat c"] by simp
  also have "\<dots> = int (unat c)"
  proof (rule signed_take_bit_int_eq_self)
    show "int (unat c) < 2 ^ 31"
      using assms by (simp only: of_nat_less_numeral_power_cancel_iff)
    have "(0::int) \<le> int (unat c)" by (rule of_nat_0_le_iff)
    moreover have "- (2 ^ 31) \<le> (0::int)" by simp
    ultimately show "- (2 ^ 31) \<le> int (unat c)" by (rule order_trans [rotated])
  qed
  finally show ?thesis .
qed


lemma StartCoProTransfer_write:
  "StartCoProTransfer a False s =
     s\<lparr>bus := bus s @ [SPI_Enable, SPI_Write (ucast (drop_bit 16 a OR 0x80)),
                        SPI_Write (ucast (drop_bit 8 a)), SPI_Write (ucast a)]\<rparr>"
  by (simp add: StartCoProTransfer_def HAL_defs Let_def)

lemma unat_ucast_16_32: "unat (ucast (w::u16) :: u32) = unat w"
proof -
  have "unat w < 2 ^ 16" using unsigned_less [of w] by simp
  then have "unat w < 2 ^ 32" by simp
  then show ?thesis by (simp add: unsigned_ucast_eq take_bit_nat_eq_self)
qed

lemma fifo_addr_lt: "(ucast (w::u16) + RAM_CMD :: u32) < 2 ^ 22"
proof -
  have "unat w < 65536" using unsigned_less [of w] by simp
  then have "unat (ucast w + RAM_CMD :: u32) = unat w + 3178496"
    by (simp add: unat_word_ariths RAM_CMD_def unat_ucast_16_32)
  then show ?thesis using \<open>unat w < 65536\<close> by (simp add: word_less_nat_alt)
qed

lemma cursor_advance:
  fixes w :: u16 and ts :: u32
  assumes "unat ts \<le> 512"
  shows "(ucast ((ucast w + ts) mod (4096 :: u32)) :: u16)
         = word_of_nat ((unat w + unat ts) mod 4096)"
proof -
  have "unat w < 65536" using unsigned_less [of w] by simp
  then have "unat (ucast w + ts :: u32) = unat w + unat ts"
    using assms by (simp add: unat_word_ariths unat_ucast_16_32)
  then have "unat ((ucast w + ts) mod (4096 :: u32)) = (unat w + unat ts) mod 4096"
    by (simp add: unat_mod)
  then show ?thesis by (metis of_nat_unat)
qed

lemma chunk_step:
  fixes ts :: u32
  assumes "unat ts \<le> 512"
  shows "wr16 (REG_CMD_WRITE h + RAM_REG)
           (ucast ((ucast (FifoWriteLocation s) + ts) mod (4096 :: u32)))
           (HAL_SPI_Disable
             ((HAL_SPI_WriteBuffer (map mem [buff ..< buff + unat ts])
                (StartCoProTransfer (ucast (FifoWriteLocation s) + RAM_CMD) False s))
              \<lparr>FifoWriteLocation := ucast ((ucast (FifoWriteLocation s) + ts) mod (4096 :: u32))\<rparr>))
         = UpdateFIFO h (send_chunk mem buff (unat ts) s)"
  using hi_write [OF fifo_addr_lt, of "FifoWriteLocation s"]
  by (simp add: UpdateFIFO_def send_chunk_def StartCoProTransfer_write HAL_defs wr16_eq
        cursor_advance [OF assms] write_intent_bytes_def FT_CMD_FIFO_SIZE_def)

lemma sless_512:
  fixes count :: u32
  assumes "unat count < 2 ^ 31"
  shows "(WorkBuffSz <s count) = (512 < unat count)"
proof -
  have "sint count = int (unat count)" by (rule sint_small) fact
  then show ?thesis by (simp add: word_sless_alt WorkBuffSz_def del: of_nat_unat)
qed

lemma rest_positive:
  fixes count :: u32
  assumes "unat count < 2 ^ 31" "512 < unat count"
  shows "0 <s count - 512" "unat (count - 512) = unat count - 512"
proof -
  have le: "(512 :: u32) \<le> count" using assms(2) by (simp add: word_le_nat_alt)
  show u: "unat (count - 512) = unat count - 512"
    using le by (simp add: unat_sub)
  have "unat (count - 512) < 2 ^ 31" using assms u by simp
  then have "sint (count - 512) = int (unat (count - 512))" by (rule sint_small)
  then show "0 <s count - 512" using u assms(2) by (simp add: word_sless_alt del: of_nat_unat)
qed

lemma rest_done:
  fixes count :: u32
  assumes "unat count \<le> 512"
  shows "\<not> 0 <s count - ((count + 3) AND 0xFFC)"
proof -
  let ?ts = "(count + 3) AND 0xFFC"
  have r: "unat ?ts = round_up4 (unat count)" by (rule unat_round) fact
  have rb: "unat count \<le> round_up4 (unat count)" "round_up4 (unat count) \<le> unat count + 3"
    by (simp_all add: round_up4_def)
  have sc: "sint count = int (unat count)" using assms by (intro sint_small) simp
  have st: "sint ?ts = int (unat ?ts)" using assms rb r by (intro sint_small) simp
  have "sint (count - ?ts) = signed_take_bit 31 (sint count - sint ?ts)"
    by (simp add: sint_word_ariths)
  also have "\<dots> = sint count - sint ?ts"
  proof -
    have "signed_take_bit 31 (int n - int m) = int n - int m"
      if "n \<le> m" "m \<le> n + 3" "n \<le> 512" for n m :: nat
      using that by (intro signed_take_bit_int_eq_self) auto
    from this [OF rb assms] show ?thesis unfolding sc st r .
  qed
  finally have "sint (count - ?ts) \<le> 0" unfolding sc st r using rb by (simp del: of_nat_unat)
  then show ?thesis by (simp add: word_sless_alt)
qed

lemmas chunk_simps = UpdateFIFO_def send_chunk_def StartCoProTransfer_write HAL_defs wr16_eq
  cursor_advance write_intent_bytes_def FT_CMD_FIFO_SIZE_def WorkBuffSz_def Let_def

lemma loop_unfold:
  fixes count :: u32
  assumes "unat count < 2 ^ 31"
  shows "CoProWrCmdBuf_loop h mem buff count s =
     (case Wait4CoProFIFO h WorkBuffSz s of
        None \<Rightarrow> None
      | Some s1 \<Rightarrow>
          if 512 < unat count
          then CoProWrCmdBuf_loop h mem (buff + 512) (count - 512)
                 (UpdateFIFO h (send_chunk mem buff 512 s1))
          else Some (UpdateFIFO h (send_chunk mem buff (round_up4 (unat count)) s1)))"
proof (cases "512 < unat count")
  case True
  have w: "WorkBuffSz <s count" using True by (simp add: sless_512 [OF assms])
  have p: "0 <s count - 512" by (rule rest_positive [OF assms True])
  show ?thesis
    apply (subst CoProWrCmdBuf_loop.simps)
    using True w p hi_write [OF fifo_addr_lt]
    apply (simp add: chunk_simps split: option.split)
    done
next
  case False
  then have le: "unat count \<le> 512" by simp
  have w: "\<not> WorkBuffSz <s count" using False by (simp add: sless_512 [OF assms])
  have p: "\<not> 0 <s count - ((count + 3) AND 0xFFC)" by (rule rest_done [OF le])
  have r: "unat ((count + 3) AND 0xFFC) = round_up4 (unat count)" by (rule unat_round [OF le])
  have rb: "round_up4 (unat count) \<le> 512" using le by (simp add: round_up4_def)
  show ?thesis
    apply (subst CoProWrCmdBuf_loop.simps)
    using False w p r rb hi_write [OF fifo_addr_lt]
    apply (simp add: chunk_simps split: option.split)
    done
qed


lemma CoProWrCmdBuf_loop_chunks:
  fixes count :: u32
  shows "unat count < 2 ^ 31 \<Longrightarrow>
         CoProWrCmdBuf_loop h mem buff count s
         = upload_chunks h mem buff (chunk_sizes (unat count)) s"
proof (induction "unat count" arbitrary: count buff s rule: less_induct)
  case less
  show ?case
  proof (cases "512 < unat count")
    case True
    have u: "unat (count - 512) = unat count - 512"
      by (rule rest_positive(2) [OF less.prems True])
    have ih: "CoProWrCmdBuf_loop h mem (buff + 512) (count - 512) s'
              = upload_chunks h mem (buff + 512) (chunk_sizes (unat count - 512)) s'" for s'
      using less.hyps [of "count - 512" "buff + 512" s'] less.prems True u by simp
    show ?thesis
      using True
      by (simp add: loop_unfold [OF less.prems] chunk_sizes.simps [of "unat count"] ih
            split: option.split)
  next
    case False
    then show ?thesis
      by (simp add: loop_unfold [OF less.prems] chunk_sizes.simps [of "unat count"]
            split: option.split)
  qed
qed

lemma chunk_sizes_closed:
  "chunk_sizes n = replicate ((n - 1) div 512) 512 @ [round_up4 (n - 512 * ((n - 1) div 512))]"
proof (induction n rule: chunk_sizes.induct)
  case (1 n)
  show ?case
  proof (cases "512 < n")
    case True
    define q where "q = (n - 512 - 1) div 512"
    have "n - 1 = (n - 512 - 1) + 512" using True by simp
    then have "(n - 1) div 512 = (n - 512 - 1) div 512 + 1" by (simp only: div_add_self2)
    then have q: "(n - 1) div 512 = Suc q" by (simp add: q_def)
    have r: "n - 512 * Suc q = n - 512 - 512 * q" by simp
    have "chunk_sizes n = 512 # chunk_sizes (n - 512)"
      using True by (subst chunk_sizes.simps) simp
    also have "chunk_sizes (n - 512) = replicate q 512 @ [round_up4 (n - 512 - 512 * q)]"
      using 1 [OF True] by (simp only: q_def)
    finally show ?thesis unfolding q r by simp
  next
    case False
    then have "(n - 1) div 512 = 0" by simp
    then show ?thesis using False by (subst chunk_sizes.simps) simp
  qed
qed

lemma chunk_sizes_bounds: "list_all (\<lambda>sz. sz \<le> 512 \<and> 4 dvd sz) (chunk_sizes n)"
proof (induction n rule: chunk_sizes.induct)
  case (1 n)
  show ?case
  proof (cases "512 < n")
    case True
    then show ?thesis using 1 by (subst chunk_sizes.simps) simp
  next
    case False
    then have "round_up4 n \<le> 512" by (simp add: round_up4_def)
    then show ?thesis using False by (subst chunk_sizes.simps) (simp add: round_up4_def)
  qed
qed

lemma FifoWriteLocation_FreeSpace [simp]:
  "FifoWriteLocation (snd (CoProFIFO_FreeSpace h s)) = FifoWriteLocation s"
  by (simp add: CoProFIFO_FreeSpace_def rd16_eq Let_def)

lemma Wait4CoProFIFO_Some:
  "Wait4CoProFIFO h room s = Some s1 \<Longrightarrow>
     (\<exists>s0. s1 = snd (CoProFIFO_FreeSpace h s0) \<and> \<not> ucast (fst (CoProFIFO_FreeSpace h s0)) < room)
     \<and> FifoWriteLocation s1 = FifoWriteLocation s"
proof (induction rule: Wait4CoProFIFO.raw_induct [rotated, consumes 1])
  case (1 wait h room s s1)
  obtain g s' where fs: "CoProFIFO_FreeSpace h s = (g, s')" by (cases "CoProFIFO_FreeSpace h s")
  have fw: "FifoWriteLocation s' = FifoWriteLocation s"
    using FifoWriteLocation_FreeSpace [of h s] fs by simp
  show ?case
  proof (cases "ucast g < room")
    case True
    then have "wait h room s' = Some s1" using 1(2) fs by simp
    from 1(1) [OF this] fw show ?thesis by simp
  next
    case False
    then have "s1 = s'" using 1(2) fs by simp
    then show ?thesis using fs fw False by (intro conjI exI [of _ s]) simp_all
  qed
qed

lemma Wait4CoProFIFO_enough:
  "\<not> ucast (fst (CoProFIFO_FreeSpace h s)) < room \<Longrightarrow>
   Wait4CoProFIFO h room s = Some (snd (CoProFIFO_FreeSpace h s))"
  by (subst Wait4CoProFIFO.simps) (cases "CoProFIFO_FreeSpace h s", simp)

text \<open>
  C4, as the code has it. For every buffer and every length below \<open>2^31\<close> (the range
  of the signed counter \<^verbatim>\<open>Remaining\<close>), \<^verbatim>\<open>CoProWrCmdBuf\<close> is the chunked upload
  above: every chunk but the last is 512 bytes, the last is the rest of the length rounded
  up to the next multiple of 4, so every chunk is at most 512 bytes and a multiple of 4;
  before each chunk the uploader has waited until a free-space reading of at least 512
  came back, and after each chunk the cursor is advanced by the chunk size modulo 4096
  and published.
\<close>

theorem upload_chunking:
  assumes "unat count < 2 ^ 31"
  shows "CoProWrCmdBuf h mem buff count s = upload_chunks h mem buff (chunk_sizes (unat count)) s
       \<and> chunk_sizes (unat count) =
           replicate ((unat count - 1) div 512) 512
           @ [round_up4 (unat count - 512 * ((unat count - 1) div 512))]
       \<and> list_all (\<lambda>sz. sz \<le> 512 \<and> 4 dvd sz) (chunk_sizes (unat count))
       \<and> (Wait4CoProFIFO h WorkBuffSz s = Some s1 \<longrightarrow>
            (\<exists>s0. s1 = snd (CoProFIFO_FreeSpace h s0)
                  \<and> 512 \<le> unat (fst (CoProFIFO_FreeSpace h s0))))"
proof -
  have w: "\<exists>s0. s1 = snd (CoProFIFO_FreeSpace h s0) \<and> 512 \<le> unat (fst (CoProFIFO_FreeSpace h s0))"
    if "Wait4CoProFIFO h WorkBuffSz s = Some s1"
  proof -
    from Wait4CoProFIFO_Some [OF that] obtain s0 where
      s0: "s1 = snd (CoProFIFO_FreeSpace h s0)"
          "\<not> ucast (fst (CoProFIFO_FreeSpace h s0)) < WorkBuffSz" by blast
    have "unat (ucast (fst (CoProFIFO_FreeSpace h s0)) :: u32) = unat (fst (CoProFIFO_FreeSpace h s0))"
      by (rule unat_ucast_16_32)
    then have "512 \<le> unat (fst (CoProFIFO_FreeSpace h s0))"
      using s0(2) by (simp add: WorkBuffSz_def word_less_nat_alt)
    then show ?thesis using s0(1) by blast
  qed
  have r: "CoProWrCmdBuf h mem buff count s
           = upload_chunks h mem buff (chunk_sizes (unat count)) s"
    by (simp add: CoProWrCmdBuf_def CoProWrCmdBuf_loop_chunks [OF assms])
  show ?thesis
    using r chunk_sizes_closed [of "unat count"] chunk_sizes_bounds [of "unat count"] w
    by blast
qed


lemma Eve_Reset_eq: "Eve_Reset s = s\<lparr>FifoWriteLocation := 0, bus := bus s @ [Reset_HW]\<rparr>"
  by (simp add: Eve_Reset_def HAL_Eve_Reset_HW_def)

lemma CoProFIFO_FreeSpace_idle:
  "CoProFIFO_FreeSpace ft81x (Eve_Reset (boot [0, 0, 0, 0])) =
     (4092, (boot [0, 0, 0, 0])
        \<lparr>bus := [Reset_HW,
                 SPI_Enable, SPI_Write 0x30, SPI_Write 0x20, SPI_Write 0xF8,
                 SPI_ReadBuffer [0, 0], SPI_Disable,
                 SPI_Enable, SPI_Write 0x30, SPI_Write 0x20, SPI_Write 0xFC,
                 SPI_ReadBuffer [0, 0], SPI_Disable],
         nread := 4\<rparr>)"
  by (simp add: CoProFIFO_FreeSpace_def rd16_eq Eve_Reset_eq boot_def ft81x_def RAM_REG_def
        read_intent_bytes_def FT_CMD_FIFO_SIZE_def Let_def)

lemma Wait4CoProFIFO_idle:
  "Wait4CoProFIFO ft81x WorkBuffSz (Eve_Reset (boot [0, 0, 0, 0])) =
     Some ((boot [0, 0, 0, 0])
        \<lparr>bus := [Reset_HW,
                 SPI_Enable, SPI_Write 0x30, SPI_Write 0x20, SPI_Write 0xF8,
                 SPI_ReadBuffer [0, 0], SPI_Disable,
                 SPI_Enable, SPI_Write 0x30, SPI_Write 0x20, SPI_Write 0xFC,
                 SPI_ReadBuffer [0, 0], SPI_Disable],
         nread := 4\<rparr>)"
  by (subst Wait4CoProFIFO_enough) (simp_all add: CoProFIFO_FreeSpace_idle WorkBuffSz_def)

theorem upload_chunking_witness:
  "unat (6 :: u32) < 2 ^ 31
   \<and> chunk_sizes (unat (6 :: u32)) = [8]
   \<and> CoProWrCmdBuf ft81x ramp 0 6 (Eve_Reset (boot [0, 0, 0, 0])) =
       Some ((boot [0, 0, 0, 0])
         \<lparr>FifoWriteLocation := 8,
          bus := [Reset_HW,
                  SPI_Enable, SPI_Write 0x30, SPI_Write 0x20, SPI_Write 0xF8,
                  SPI_ReadBuffer [0, 0], SPI_Disable,
                  SPI_Enable, SPI_Write 0x30, SPI_Write 0x20, SPI_Write 0xFC,
                  SPI_ReadBuffer [0, 0], SPI_Disable,
                  SPI_Enable, SPI_Write 0xB0, SPI_Write 0x80, SPI_Write 0x00,
                  SPI_WriteBuffer [0, 1, 2, 3, 4, 5, 6, 7], SPI_Disable,
                  SPI_Enable, SPI_Write 0xB0, SPI_Write 0x20, SPI_Write 0xFC,
                  SPI_Write 0x08, SPI_Write 0x00, SPI_Disable],
          nread := 4\<rparr>)"
proof -
  have h: "unat (6 :: u32) < 2 ^ 31" by simp
  have c: "chunk_sizes (unat (6 :: u32)) = [8]"
    by (simp add: chunk_sizes.simps round_up4_def)
  have "CoProWrCmdBuf ft81x ramp 0 6 (Eve_Reset (boot [0, 0, 0, 0]))
        = upload_chunks ft81x ramp 0 [8] (Eve_Reset (boot [0, 0, 0, 0]))"
    using upload_chunking [OF h, of ft81x ramp 0 "Eve_Reset (boot [0, 0, 0, 0])"]
    unfolding c by (rule conjunct1)
  also have "\<dots> = Some (UpdateFIFO ft81x (send_chunk ramp 0 8
                 ((boot [0, 0, 0, 0])
        \<lparr>bus := [Reset_HW,
                 SPI_Enable, SPI_Write 0x30, SPI_Write 0x20, SPI_Write 0xF8,
                 SPI_ReadBuffer [0, 0], SPI_Disable,
                 SPI_Enable, SPI_Write 0x30, SPI_Write 0x20, SPI_Write 0xFC,
                 SPI_ReadBuffer [0, 0], SPI_Disable],
         nread := 4\<rparr>)))"
    by (simp add: Wait4CoProFIFO_idle)
  finally show ?thesis
    using h c
    by (simp add: send_chunk_def UpdateFIFO_def wr16_eq boot_def ft81x_def
          RAM_REG_def RAM_CMD_def write_intent_bytes_def le_bytes16_def FT_CMD_FIFO_SIZE_def
          ramp_def upt_rec)
qed

text \<open>
  For a length of \<open>2^31\<close> or more the signed counter starts negative: with the
  length \<^verbatim>\<open>0xFFFFFFFC\<close> the only chunk written is 4092 bytes long.
\<close>

theorem upload_huge_length_counterexample:
  "map_option (chunk_lengths \<circ> bus)
     (CoProWrCmdBuf ft81x ramp 0 0xFFFFFFFC (Eve_Reset (boot [0, 0, 0, 0]))) = Some [4092]
   \<and> (512 :: nat) < 4092"
  unfolding CoProWrCmdBuf_def
  by (subst CoProWrCmdBuf_loop.simps, subst Wait4CoProFIFO_idle)
     (simp add: StartCoProTransfer_write HAL_defs wr16_eq boot_def le_bytes16_def
        WorkBuffSz_def Let_def word_sless_alt del: upt_rec_numeral)


lemma polls_Suc: "polls h n (snd (CoProFIFO_FreeSpace h s)) = polls h (Suc n) s"
  by simp

lemma polls_snoc: "polls h (Suc n) s = snd (CoProFIFO_FreeSpace h (polls h n s))"
  by (induction n arbitrary: s) simp_all










section \<open>Waiting for the FIFO to drain: fault recovery\<close>

lemma addr22_read: "addr22 (read_intent_bytes a @ bs) = take_bit 22 a"
  unfolding addr22_def read_intent_bytes_def
  apply simp
  apply (rule bit_word_eqI)
  apply (auto simp: bit_simps)
  done


lemma addr22_write:
  assumes "(a::u32) < 2 ^ 22"
  shows "addr22 ([ucast (drop_bit 16 a OR 0x80), ucast (drop_bit 8 a), ucast a] @ bs) = a"
proof -
  have t: "take_bit 22 a = a" using assms by (simp add: less_mask_eq take_bit_eq_mask)
  have b128: "bit (128 :: u32) m = (m = 7)" "bit (128 :: u8) m = (m = 7)"
     "bit (128 :: nat) m = (m = 7)" "bit (128 :: int) m = (m = 7)" for m
    using bit_exp_iff [of 7 m, where ?'a = u32] bit_exp_iff [of 7 m, where ?'a = u8]
      bit_exp_iff [of 7 m, where ?'a = nat] bit_exp_iff [of 7 m, where ?'a = int] by auto
  have "addr22 ([ucast (drop_bit 16 a OR 0x80), ucast (drop_bit 8 a), ucast a] @ bs) = take_bit 22 a"
    unfolding addr22_def
    apply simp
    apply (rule bit_word_eqI)
    apply (auto simp: bit_simps b128)
    done
  then show ?thesis unfolding t .
qed

lemma write_bit7: "bit (ucast (drop_bit 16 (a::u32) OR 0x80) :: u8) 7"
proof -
  have e: "(0x80 :: u32) = 2 ^ 7" by simp
  show ?thesis unfolding e by (simp add: bit_simps)
qed

lemma read_bit7: "\<not> bit (ucast (take_bit 6 (drop_bit 16 (a::u32))) :: u8) 7"
  by (simp add: bit_simps)

lemma le_bytes32_value:
  "le_bytes32 (word_of_nat (le_value [b0, b1, b2, b3])) = [b0, b1, b2, b3]"
proof -
  have lt: "unat b0 < 256" "unat b1 < 256" "unat b2 < 256" "unat b3 < 256"
    using unsigned_less [of b0] unsigned_less [of b1] unsigned_less [of b2] unsigned_less [of b3]
    by simp_all
  define m2 where "m2 = unat b2 + 256 * unat b3"
  define m1 where "m1 = unat b1 + 256 * m2"
  define n where "n = unat b0 + 256 * m1"
  have nb: "n < 2 ^ 32" using lt by (simp add: n_def m1_def m2_def)
  have u: "unat (word_of_nat n :: u32) = n" using nb by (simp add: unat_of_nat)
  have d1: "n div 256 = m1" using lt by (simp add: n_def)
  have d2: "n div 65536 = m2"
  proof -
    have "n div 65536 = n div 256 div 256" by (simp add: div_mult2_eq [symmetric])
    then show ?thesis using lt by (simp add: d1 m1_def)
  qed
  have d3: "n div 16777216 = unat b3"
  proof -
    have "n div 16777216 = n div 65536 div 256" by (simp add: div_mult2_eq [symmetric])
    then show ?thesis using lt by (simp add: d2 m2_def)
  qed
  have d: "unat (drop_bit 8 (word_of_nat n :: u32)) = m1"
          "unat (drop_bit 16 (word_of_nat n :: u32)) = m2"
          "unat (drop_bit 24 (word_of_nat n :: u32)) = unat b3"
    using d1 d2 d3 by (simp_all add: drop_bit_eq_div unat_div u)
  have b: "(ucast (word_of_nat n :: u32) :: u8) = word_of_nat n"
          "(ucast (drop_bit 8 (word_of_nat n :: u32)) :: u8) = word_of_nat m1"
          "(ucast (drop_bit 16 (word_of_nat n :: u32)) :: u8) = word_of_nat m2"
          "(ucast (drop_bit 24 (word_of_nat n :: u32)) :: u8) = word_of_nat (unat b3)"
    using u d by (metis of_nat_unat)+
  have w: "(word_of_nat m :: u8) = c" if "m mod 256 = unat c" for m c
  proof -
    have "(word_of_nat m :: u8) = word_of_nat (m mod 256)"
      by (simp add: word_of_nat_eq_iff take_bit_eq_mod)
    then show ?thesis using that by simp
  qed
  have e: "(word_of_nat n :: u8) = b0" "(word_of_nat m1 :: u8) = b1"
          "(word_of_nat m2 :: u8) = b2" "(word_of_nat (unat b3) :: u8) = b3"
  proof -
    show "(word_of_nat n :: u8) = b0" by (rule w) (use lt in \<open>simp add: n_def\<close>)
    show "(word_of_nat m1 :: u8) = b1" by (rule w) (use lt in \<open>simp add: m1_def\<close>)
    show "(word_of_nat m2 :: u8) = b2" by (rule w) (use lt in \<open>simp add: m2_def\<close>)
    show "(word_of_nat (unat b3) :: u8) = b3" by simp
  qed
  have "le_bytes32 (word_of_nat n) = [b0, b1, b2, b3]"
    unfolding le_bytes32_def b e ..
  then show ?thesis by (simp add: n_def m1_def m2_def)
qed


lemma report_events:
  "\<exists>R T. bus (Wait4CoProFIFOEmpty_report h off s) = bus s @ R
         \<and> FifoWriteLocation (Wait4CoProFIFOEmpty_report h off s) = FifoWriteLocation s
         \<and> closed_reads R T"
proof (induction h off s rule: Wait4CoProFIFOEmpty_report.induct)
  case (1 h Offset s)
  define a where "a = RAM_ERR_REPORT h + ucast Offset"
  define c where "c = miso s (nread s)"
  define E where "E = [SPI_Enable] @ map SPI_Write (read_intent_bytes a)
                      @ [SPI_ReadBuffer [c], SPI_Disable, LogOut [c]]"
  define s2 where "s2 = Log [c] (snd (rd8 a s))"
  have b2: "bus s2 = bus s @ E" and f2: "FifoWriteLocation s2 = FifoWriteLocation s"
    by (simp_all add: s2_def rd8_eq Log_def E_def c_def)
  have tE: "transactions None (E @ rest) = (read_intent_bytes a, [c]) # transactions None rest"
    for rest
    by (simp add: E_def read_intent_bytes_def)
  have rE: "is_read (reg_op_of (read_intent_bytes a, [c]))"
    by (simp add: reg_op_of_def read_intent_bytes_def read_bit7)
  show ?case
  proof (cases "c \<noteq> 0 \<and> Offset + 1 < 128")
    case True
    have step: "Wait4CoProFIFOEmpty_report h Offset s = Wait4CoProFIFOEmpty_report h (Offset + 1) s2"
      using True
      by (subst Wait4CoProFIFOEmpty_report.simps)
         (simp add: rd8_eq Let_def s2_def a_def c_def del: Wait4CoProFIFOEmpty_report.simps)
    have "\<exists>R T. bus (Wait4CoProFIFOEmpty_report h (Offset + 1) s2) = bus s2 @ R
         \<and> FifoWriteLocation (Wait4CoProFIFOEmpty_report h (Offset + 1) s2) = FifoWriteLocation s2
         \<and> closed_reads R T"
      by (rule "1.IH" [of "rd8 a s" c "snd (rd8 a s)" "Offset + 1" s2])
         (use True in \<open>simp_all add: rd8_eq a_def c_def s2_def\<close>)
    then obtain R T where
      ih: "bus (Wait4CoProFIFOEmpty_report h (Offset + 1) s2) = bus s2 @ R"
          "FifoWriteLocation (Wait4CoProFIFOEmpty_report h (Offset + 1) s2) = FifoWriteLocation s2"
          "closed_reads R T" by blast
    have "closed_reads (E @ R) ((read_intent_bytes a, [c]) # T)"
      using ih(3) rE by (simp add: closed_reads_def tE)
    then show ?thesis
      unfolding step using ih(1,2) b2 f2 by (intro exI [of _ "E @ R"] exI) auto
  next
    case False
    have stop: "Wait4CoProFIFOEmpty_report h Offset s = s2"
      using False
      by (subst Wait4CoProFIFOEmpty_report.simps)
         (auto simp add: rd8_eq Let_def s2_def a_def c_def simp del: Wait4CoProFIFOEmpty_report.simps)
    have "closed_reads E [(read_intent_bytes a, [c])]"
      using rE tE by (simp add: closed_reads_def)
    then show ?thesis unfolding stop using b2 f2 by blast
  qed
qed


lemma poll_fault_unfold:
  fixes h s
  defines "s3 \<equiv> Wait4CoProFIFOEmpty_report h 0
                   (Log [0x0A] (snd (rd16 (REG_CMD_READ h + RAM_REG) s)))"
  defines "s4 \<equiv> Log [0x0A] s3"
  defines "X \<equiv> HAL_Delay 250
       (wr32 (REG_COPRO_PATCH_PTR h + RAM_REG) (fst (rd32 (REG_COPRO_PATCH_PTR h + RAM_REG) s4))
       (wr8 (REG_CPU_RESET h + RAM_REG) 0
       (wr16 (REG_CMD_DL h + RAM_REG) 0
       (wr16 (REG_CMD_WRITE h + RAM_REG) 0
       (wr16 (REG_CMD_READ h + RAM_REG) 0
       (wr8 (REG_CPU_RESET h + RAM_REG) 1
       (snd (rd32 (REG_COPRO_PATCH_PTR h + RAM_REG) s4))))))))"
  assumes "fst (rd16 (REG_CMD_READ h + RAM_REG) s) = 0xFFF"
  shows "Wait4CoProFIFOEmpty_poll h s =
    (0xFFF \<noteq> fst (rd16 (REG_CMD_WRITE h + RAM_REG) X), snd (rd16 (REG_CMD_WRITE h + RAM_REG) X))"
  unfolding Wait4CoProFIFOEmpty_poll_def X_def s4_def s3_def using assms
  by (simp add: split_beta Let_def)

lemma recovery_tail:
  "rd16 WR
       (HAL_Delay 250
       (wr32 P (fst (rd32 P (Log [0x0A] s3)))
       (wr8 R 0
       (wr16 DL 0
       (wr16 WR 0
       (wr16 RD 0
       (wr8 R 1
       (snd (rd32 P (Log [0x0A] s3)))))))))) =
   (word_of_nat (le_value [miso s3 (nread s3 + 4), miso s3 (nread s3 + 5)]),
    s3\<lparr>bus := bus s3 @ [LogOut [0x0A]]
             @ [SPI_Enable, SPI_WriteBuffer (read_intent_bytes P),
                SPI_ReadBuffer [miso s3 (nread s3), miso s3 (nread s3 + 1),
                                miso s3 (nread s3 + 2), miso s3 (nread s3 + 3)], SPI_Disable]
             @ bus (wr32 P
                      (word_of_nat (le_value [miso s3 (nread s3), miso s3 (nread s3 + 1),
                                              miso s3 (nread s3 + 2), miso s3 (nread s3 + 3)]))
                   (wr8 R 0 (wr16 DL 0 (wr16 WR 0 (wr16 RD 0 (wr8 R 1 (boot [])))))))
             @ [Delay 250]
             @ ([SPI_Enable] @ map SPI_Write (read_intent_bytes WR)
                @ [SPI_ReadBuffer [miso s3 (nread s3 + 4), miso s3 (nread s3 + 5)], SPI_Disable]),
       nread := nread s3 + 6\<rparr>)"
  by (simp add: rd32_eq rd16_eq wr8_eq wr16_eq wr32_eq Log_def HAL_Delay_def boot_def add.commute)

lemma poll_fault_state:
  assumes "dev16 s 0 = 0xFFF"
  shows "\<exists>R T s3.
     closed_reads R T \<and> FifoWriteLocation s3 = FifoWriteLocation s \<and>
     Wait4CoProFIFOEmpty_poll h s =
       (0xFFF \<noteq> (word_of_nat (le_value [miso s3 (nread s3 + 4), miso s3 (nread s3 + 5)]) :: u16),
        s3\<lparr>bus := bus s
             @ ([SPI_Enable] @ map SPI_Write (read_intent_bytes (REG_CMD_READ h + RAM_REG))
                @ [SPI_ReadBuffer [miso s (nread s), miso s (nread s + 1)], SPI_Disable])
             @ [LogOut [0x0A]] @ R @ [LogOut [0x0A]]
             @ [SPI_Enable, SPI_WriteBuffer (read_intent_bytes (REG_COPRO_PATCH_PTR h + RAM_REG)),
                SPI_ReadBuffer [miso s3 (nread s3), miso s3 (nread s3 + 1),
                                miso s3 (nread s3 + 2), miso s3 (nread s3 + 3)], SPI_Disable]
             @ bus (wr32 (REG_COPRO_PATCH_PTR h + RAM_REG)
                      (word_of_nat (le_value [miso s3 (nread s3), miso s3 (nread s3 + 1),
                                              miso s3 (nread s3 + 2), miso s3 (nread s3 + 3)]))
                   (wr8 (REG_CPU_RESET h + RAM_REG) 0
                   (wr16 (REG_CMD_DL h + RAM_REG) 0
                   (wr16 (REG_CMD_WRITE h + RAM_REG) 0
                   (wr16 (REG_CMD_READ h + RAM_REG) 0
                   (wr8 (REG_CPU_RESET h + RAM_REG) 1 (boot [])))))))
             @ [Delay 250]
             @ ([SPI_Enable] @ map SPI_Write (read_intent_bytes (REG_CMD_WRITE h + RAM_REG))
                @ [SPI_ReadBuffer [miso s3 (nread s3 + 4), miso s3 (nread s3 + 5)], SPI_Disable]),
            nread := nread s3 + 6\<rparr>)"
proof -
  define s2 where "s2 = Log [0x0A] (snd (rd16 (REG_CMD_READ h + RAM_REG) s))"
  define s3 where "s3 = Wait4CoProFIFOEmpty_report h 0 s2"
  obtain R T where
    R: "bus s3 = bus s2 @ R" "FifoWriteLocation s3 = FifoWriteLocation s2" "closed_reads R T"
    using report_events [of h 0 s2] unfolding s3_def by blast
  have f: "FifoWriteLocation s3 = FifoWriteLocation s"
    using R(2) by (simp add: s2_def rd16_eq Log_def)
  have b: "bus s3 = bus s
             @ ([SPI_Enable] @ map SPI_Write (read_intent_bytes (REG_CMD_READ h + RAM_REG))
                @ [SPI_ReadBuffer [miso s (nread s), miso s (nread s + 1)], SPI_Disable])
             @ [LogOut [0x0A]] @ R"
    using R(1) by (simp add: s2_def rd16_eq Log_def)
  have rr: "fst (rd16 (REG_CMD_READ h + RAM_REG) s) = 0xFFF"
    using assms by (simp add: rd16_eq dev16_def)
  have "Wait4CoProFIFOEmpty_poll h s =
       (0xFFF \<noteq> (word_of_nat (le_value [miso s3 (nread s3 + 4), miso s3 (nread s3 + 5)]) :: u16),
        s3\<lparr>bus := bus s3 @ [LogOut [0x0A]]
             @ [SPI_Enable, SPI_WriteBuffer (read_intent_bytes (REG_COPRO_PATCH_PTR h + RAM_REG)),
                SPI_ReadBuffer [miso s3 (nread s3), miso s3 (nread s3 + 1),
                                miso s3 (nread s3 + 2), miso s3 (nread s3 + 3)], SPI_Disable]
             @ bus (wr32 (REG_COPRO_PATCH_PTR h + RAM_REG)
                      (word_of_nat (le_value [miso s3 (nread s3), miso s3 (nread s3 + 1),
                                              miso s3 (nread s3 + 2), miso s3 (nread s3 + 3)]))
                   (wr8 (REG_CPU_RESET h + RAM_REG) 0
                   (wr16 (REG_CMD_DL h + RAM_REG) 0
                   (wr16 (REG_CMD_WRITE h + RAM_REG) 0
                   (wr16 (REG_CMD_READ h + RAM_REG) 0
                   (wr8 (REG_CPU_RESET h + RAM_REG) 1 (boot [])))))))
             @ [Delay 250]
             @ ([SPI_Enable] @ map SPI_Write (read_intent_bytes (REG_CMD_WRITE h + RAM_REG))
                @ [SPI_ReadBuffer [miso s3 (nread s3 + 4), miso s3 (nread s3 + 5)], SPI_Disable]),
            nread := nread s3 + 6\<rparr>)"
    unfolding poll_fault_unfold [OF rr] s2_def [symmetric] s3_def [symmetric] recovery_tail
    by simp
  then show ?thesis using R(3) f unfolding b by (intro exI [of _ R] exI [of _ T] exI [of _ s3]) simp
qed


lemma take_bit_22: "(a::u32) < 2 ^ 22 \<Longrightarrow> take_bit 22 a = a"
  by (simp add: less_mask_eq take_bit_eq_mask)

lemma reg_op_of_read:
  "reg_op_of (read_intent_bytes a, rx) = RegRead (take_bit 22 a) rx"
  using addr22_read [of a "[]"]
  by (simp add: reg_op_of_def read_intent_bytes_def read_bit7)

lemma reg_op_of_write:
  "(a::u32) < 2 ^ 22 \<Longrightarrow>
   reg_op_of (ucast (drop_bit 16 a OR 0x80) # ucast (drop_bit 8 a) # ucast a # payload, rx)
   = RegWrite a payload"
  using addr22_write [of a payload] write_bit7 [of a]
  by (simp add: reg_op_of_def)

lemma poll_plain:
  assumes "dev16 s 0 \<noteq> 0xFFF"
  shows "Wait4CoProFIFOEmpty_poll h s =
           (dev16 s 0 \<noteq> dev16 s 2,
            snd (rd16 (REG_CMD_WRITE h + RAM_REG) (snd (rd16 (REG_CMD_READ h + RAM_REG) s))))"
  unfolding Wait4CoProFIFOEmpty_poll_def using assms
  by (simp add: rd16_eq dev16_def Let_def numeral_3_eq_3 add.commute)

lemma FifoWriteLocation_poll:
  "FifoWriteLocation (snd (Wait4CoProFIFOEmpty_poll h s)) = FifoWriteLocation s"
proof (cases "dev16 s 0 = 0xFFF")
  case True
  from poll_fault_state [OF True, of h] show ?thesis by auto
next
  case False
  then show ?thesis by (simp add: poll_plain rd16_eq)
qed

lemma Wait4CoProFIFOEmpty_cursor:
  "Wait4CoProFIFOEmpty h s = Some s' \<Longrightarrow> FifoWriteLocation s' = FifoWriteLocation s"
proof (induction rule: Wait4CoProFIFOEmpty.raw_induct [rotated, consumes 1])
  case (1 wait h s s')
  obtain again s1 where p: "Wait4CoProFIFOEmpty_poll h s = (again, s1)"
    by (cases "Wait4CoProFIFOEmpty_poll h s")
  have f: "FifoWriteLocation s1 = FifoWriteLocation s"
    using FifoWriteLocation_poll [of h s] p by simp
  show ?case
  proof (cases again)
    case True
    then have "wait h s1 = Some s'" using 1(2) p by simp
    from 1(1) [OF this] f show ?thesis by simp
  next
    case False
    then have "s' = s1" using 1(2) p by simp
    then show ?thesis using f by simp
  qed
qed

text \<open>
  C3. When a poll of \<^verbatim>\<open>Wait4CoProFIFOEmpty\<close> reads the sentinel \<open>0xFFF\<close> from the
  read-cursor register, the register accesses of that pass are, in order: the poll itself,
  the reads of the error string, the read of the patch pointer, then exactly one recovery
  sequence (write 1 to \<^verbatim>\<open>REG_CPU_RESET\<close>; write 0 to \<^verbatim>\<open>REG_CMD_READ\<close>,
  \<^verbatim>\<open>REG_CMD_WRITE\<close> and \<^verbatim>\<open>REG_CMD_DL\<close>; write 0 to \<^verbatim>\<open>REG_CPU_RESET\<close>; write the
  bytes read from the patch pointer back to it), and the read of \<^verbatim>\<open>REG_CMD_WRITE\<close> of
  the loop condition, after which the loop goes on from the resulting state.
  \<^verbatim>\<open>FifoWriteLocation\<close> is the same after the pass, and after the whole wait when it
  returns.
\<close>

theorem fault_recovery_sequence:
  assumes "regs_ok h" and "dev16 s 0 = 0xFFF"
  shows "(\<exists>report rb pb wb.
           reg_ops (written s (snd (Wait4CoProFIFOEmpty_poll h s))) =
             RegRead (REG_CMD_READ h + RAM_REG) rb # report @
             [RegRead (REG_COPRO_PATCH_PTR h + RAM_REG) pb,
              RegWrite (REG_CPU_RESET h + RAM_REG) [1],
              RegWrite (REG_CMD_READ h + RAM_REG) [0, 0],
              RegWrite (REG_CMD_WRITE h + RAM_REG) [0, 0],
              RegWrite (REG_CMD_DL h + RAM_REG) [0, 0],
              RegWrite (REG_CPU_RESET h + RAM_REG) [0],
              RegWrite (REG_COPRO_PATCH_PTR h + RAM_REG) pb,
              RegRead (REG_CMD_WRITE h + RAM_REG) wb]
           \<and> word_of_nat (le_value rb) = (0xFFF :: u16)
           \<and> list_all is_read report \<and> length pb = 4 \<and> length wb = 2
           \<and> fst (Wait4CoProFIFOEmpty_poll h s) = (0xFFF \<noteq> (word_of_nat (le_value wb) :: u16)))
       \<and> FifoWriteLocation (snd (Wait4CoProFIFOEmpty_poll h s)) = FifoWriteLocation s
       \<and> Wait4CoProFIFOEmpty h s =
           (if fst (Wait4CoProFIFOEmpty_poll h s)
            then Wait4CoProFIFOEmpty h (snd (Wait4CoProFIFOEmpty_poll h s))
            else Some (snd (Wait4CoProFIFOEmpty_poll h s)))
       \<and> (Wait4CoProFIFOEmpty h s = Some s' \<longrightarrow> FifoWriteLocation s' = FifoWriteLocation s)"
proof -
  from poll_fault_state [OF assms(2), of h] obtain R T s3 where
    cr: "closed_reads R T" and
    p: "Wait4CoProFIFOEmpty_poll h s =
       (0xFFF \<noteq> (word_of_nat (le_value [miso s3 (nread s3 + 4), miso s3 (nread s3 + 5)]) :: u16),
        s3\<lparr>bus := bus s
             @ ([SPI_Enable] @ map SPI_Write (read_intent_bytes (REG_CMD_READ h + RAM_REG))
                @ [SPI_ReadBuffer [miso s (nread s), miso s (nread s + 1)], SPI_Disable])
             @ [LogOut [0x0A]] @ R @ [LogOut [0x0A]]
             @ [SPI_Enable, SPI_WriteBuffer (read_intent_bytes (REG_COPRO_PATCH_PTR h + RAM_REG)),
                SPI_ReadBuffer [miso s3 (nread s3), miso s3 (nread s3 + 1),
                                miso s3 (nread s3 + 2), miso s3 (nread s3 + 3)], SPI_Disable]
             @ bus (wr32 (REG_COPRO_PATCH_PTR h + RAM_REG)
                      (word_of_nat (le_value [miso s3 (nread s3), miso s3 (nread s3 + 1),
                                              miso s3 (nread s3 + 2), miso s3 (nread s3 + 3)]))
                   (wr8 (REG_CPU_RESET h + RAM_REG) 0
                   (wr16 (REG_CMD_DL h + RAM_REG) 0
                   (wr16 (REG_CMD_WRITE h + RAM_REG) 0
                   (wr16 (REG_CMD_READ h + RAM_REG) 0
                   (wr8 (REG_CPU_RESET h + RAM_REG) 1 (boot [])))))))
             @ [Delay 250]
             @ ([SPI_Enable] @ map SPI_Write (read_intent_bytes (REG_CMD_WRITE h + RAM_REG))
                @ [SPI_ReadBuffer [miso s3 (nread s3 + 4), miso s3 (nread s3 + 5)], SPI_Disable]),
            nread := nread s3 + 6\<rparr>)"
    by blast
  define pb where "pb = [miso s3 (nread s3), miso s3 (nread s3 + 1),
                         miso s3 (nread s3 + 2), miso s3 (nread s3 + 3)]"
  define wb where "wb = [miso s3 (nread s3 + 4), miso s3 (nread s3 + 5)]"
  define rb where "rb = [miso s (nread s), miso s (nread s + 1)]"
  have tr: "transactions None (R @ rest) = T @ transactions None rest" for rest
    using cr by (simp add: closed_reads_def)
  have tl: "list_all is_read (map reg_op_of T)"
    using cr by (simp add: closed_reads_def list_all_iff)
  have lt: "REG_CMD_READ h + RAM_REG < 2 ^ 22" "REG_CMD_WRITE h + RAM_REG < 2 ^ 22"
    "REG_CMD_DL h + RAM_REG < 2 ^ 22" "REG_CPU_RESET h + RAM_REG < 2 ^ 22"
    "REG_COPRO_PATCH_PTR h + RAM_REG < 2 ^ 22"
    using assms(1) by (simp_all add: regs_ok_def)
  have ops: "reg_ops (written s (snd (Wait4CoProFIFOEmpty_poll h s))) =
             RegRead (REG_CMD_READ h + RAM_REG) rb # map reg_op_of T @
             [RegRead (REG_COPRO_PATCH_PTR h + RAM_REG) pb,
              RegWrite (REG_CPU_RESET h + RAM_REG) [1],
              RegWrite (REG_CMD_READ h + RAM_REG) [0, 0],
              RegWrite (REG_CMD_WRITE h + RAM_REG) [0, 0],
              RegWrite (REG_CMD_DL h + RAM_REG) [0, 0],
              RegWrite (REG_CPU_RESET h + RAM_REG) [0],
              RegWrite (REG_COPRO_PATCH_PTR h + RAM_REG) pb,
              RegRead (REG_CMD_WRITE h + RAM_REG) wb]"
    unfolding p
    apply (simp add: written_def reg_ops_def wr8_eq wr16_eq wr32_eq boot_def tr le_bytes16_def
        le_bytes32_value reg_op_of_read take_bit_22 lt rb_def pb_def wb_def)
    apply (simp add: read_intent_bytes_def tr reg_op_of_read [unfolded read_intent_bytes_def]
        lt [THEN take_bit_22] lt [THEN reg_op_of_write] le_bytes32_value [simplified])
    done
  have rbv: "word_of_nat (le_value rb) = (0xFFF :: u16)"
    using assms(2) by (simp add: dev16_def rb_def)
  have ex: "\<exists>report rb pb wb.
           reg_ops (written s (snd (Wait4CoProFIFOEmpty_poll h s))) =
             RegRead (REG_CMD_READ h + RAM_REG) rb # report @
             [RegRead (REG_COPRO_PATCH_PTR h + RAM_REG) pb,
              RegWrite (REG_CPU_RESET h + RAM_REG) [1],
              RegWrite (REG_CMD_READ h + RAM_REG) [0, 0],
              RegWrite (REG_CMD_WRITE h + RAM_REG) [0, 0],
              RegWrite (REG_CMD_DL h + RAM_REG) [0, 0],
              RegWrite (REG_CPU_RESET h + RAM_REG) [0],
              RegWrite (REG_COPRO_PATCH_PTR h + RAM_REG) pb,
              RegRead (REG_CMD_WRITE h + RAM_REG) wb]
           \<and> word_of_nat (le_value rb) = (0xFFF :: u16)
           \<and> list_all is_read report \<and> length pb = 4 \<and> length wb = 2
           \<and> fst (Wait4CoProFIFOEmpty_poll h s) = (0xFFF \<noteq> (word_of_nat (le_value wb) :: u16))"
    apply (rule exI [of _ "map reg_op_of T"], rule exI [of _ rb], rule exI [of _ pb],
           rule exI [of _ wb])
    using ops rbv tl by (simp add: pb_def wb_def p)
  have un: "Wait4CoProFIFOEmpty h s =
           (if fst (Wait4CoProFIFOEmpty_poll h s)
            then Wait4CoProFIFOEmpty h (snd (Wait4CoProFIFOEmpty_poll h s))
            else Some (snd (Wait4CoProFIFOEmpty_poll h s)))"
    by (subst Wait4CoProFIFOEmpty.simps) (simp add: split_beta)
  show ?thesis
    using ex FifoWriteLocation_poll [of h s] un Wait4CoProFIFOEmpty_cursor [of h s s']
    by blast
qed


lemma faulted_chip_eq:
  "faulted_chip =
     (boot [0xFF, 0x0F, 0x00, 0x78, 0x56, 0x34, 0x12, 0x00, 0x00])
       \<lparr>FifoWriteLocation := 8,
        bus := [Reset_HW,
                SPI_Enable, SPI_WriteBuffer [0xB0, 0x80, 0x00, 1, 0, 0, 0], SPI_Disable,
                SPI_Enable, SPI_WriteBuffer [0xB0, 0x80, 0x04, 2, 0, 0, 0], SPI_Disable]\<rparr>"
  by (simp add: faulted_chip_def Send_CMD_eq Eve_Reset_def HAL_Eve_Reset_HW_def boot_def
        RAM_CMD_def le_bytes32_def)

lemma faulted_poll:
  "Wait4CoProFIFOEmpty_poll ft81x faulted_chip =
     (True, faulted_chip
       \<lparr>bus := bus faulted_chip @
          [SPI_Enable, SPI_Write 0x30, SPI_Write 0x20, SPI_Write 0xF8,
           SPI_ReadBuffer [0xFF, 0x0F], SPI_Disable,
           LogOut [0x0A],
           SPI_Enable, SPI_Write 0x30, SPI_Write 0x98, SPI_Write 0x00,
           SPI_ReadBuffer [0x00], SPI_Disable, LogOut [0x00],
           LogOut [0x0A],
           SPI_Enable, SPI_WriteBuffer [0x30, 0x91, 0x62],
           SPI_ReadBuffer [0x78, 0x56, 0x34, 0x12], SPI_Disable,
           SPI_Enable, SPI_Write 0xB0, SPI_Write 0x20, SPI_Write 0x20, SPI_Write 1, SPI_Disable,
           SPI_Enable, SPI_Write 0xB0, SPI_Write 0x20, SPI_Write 0xF8, SPI_Write 0, SPI_Write 0,
           SPI_Disable,
           SPI_Enable, SPI_Write 0xB0, SPI_Write 0x20, SPI_Write 0xFC, SPI_Write 0, SPI_Write 0,
           SPI_Disable,
           SPI_Enable, SPI_Write 0xB0, SPI_Write 0x21, SPI_Write 0x00, SPI_Write 0, SPI_Write 0,
           SPI_Disable,
           SPI_Enable, SPI_Write 0xB0, SPI_Write 0x20, SPI_Write 0x20, SPI_Write 0, SPI_Disable,
           SPI_Enable, SPI_WriteBuffer [0xB0, 0x91, 0x62, 0x78, 0x56, 0x34, 0x12], SPI_Disable,
           Delay 250,
           SPI_Enable, SPI_Write 0x30, SPI_Write 0x20, SPI_Write 0xFC,
           SPI_ReadBuffer [0x00, 0x00], SPI_Disable],
        nread := 9\<rparr>)"
  unfolding faulted_chip_eq
  by (simp add: Wait4CoProFIFOEmpty_poll_def Wait4CoProFIFOEmpty_report.simps
        rd8_eq rd16_eq rd32_eq wr8_eq wr16_eq wr32_eq Log_def HAL_Delay_def Let_def
        read_intent_bytes_def le_bytes16_def le_bytes32_def boot_def ft81x_def RAM_REG_def)


lemma regs_ok_ft81x: "regs_ok ft81x"
  by (simp add: regs_ok_def ft81x_def RAM_REG_def)

lemma faulted_chip_sentinel: "dev16 faulted_chip 0 = 0xFFF"
  unfolding faulted_chip_eq by (simp add: dev16_def boot_def)

theorem fault_recovery_sequence_witness:
  "regs_ok ft81x \<and> dev16 faulted_chip 0 = 0xFFF
   \<and> reg_ops (written faulted_chip (snd (Wait4CoProFIFOEmpty_poll ft81x faulted_chip))) =
       [RegRead 0x3020F8 [0xFF, 0x0F],
        RegRead 0x309800 [0x00],
        RegRead 0x309162 [0x78, 0x56, 0x34, 0x12],
        RegWrite 0x302020 [1],
        RegWrite 0x3020F8 [0, 0],
        RegWrite 0x3020FC [0, 0],
        RegWrite 0x302100 [0, 0],
        RegWrite 0x302020 [0],
        RegWrite 0x309162 [0x78, 0x56, 0x34, 0x12],
        RegRead 0x3020FC [0, 0]]
   \<and> fst (Wait4CoProFIFOEmpty_poll ft81x faulted_chip)
   \<and> FifoWriteLocation faulted_chip = 8
   \<and> FifoWriteLocation (snd (Wait4CoProFIFOEmpty_poll ft81x faulted_chip)) = 8"
proof -
  note t = fault_recovery_sequence [OF regs_ok_ft81x faulted_chip_sentinel]
  have f: "FifoWriteLocation (snd (Wait4CoProFIFOEmpty_poll ft81x faulted_chip))
           = FifoWriteLocation faulted_chip"
    using t by blast
  have c: "FifoWriteLocation faulted_chip = 8"
    unfolding faulted_chip_eq by simp
  have o: "reg_ops (written faulted_chip (snd (Wait4CoProFIFOEmpty_poll ft81x faulted_chip))) =
       [RegRead 0x3020F8 [0xFF, 0x0F],
        RegRead 0x309800 [0x00],
        RegRead 0x309162 [0x78, 0x56, 0x34, 0x12],
        RegWrite 0x302020 [1],
        RegWrite 0x3020F8 [0, 0],
        RegWrite 0x3020FC [0, 0],
        RegWrite 0x302100 [0, 0],
        RegWrite 0x302020 [0],
        RegWrite 0x309162 [0x78, 0x56, 0x34, 0x12],
        RegRead 0x3020FC [0, 0]]"
    unfolding faulted_poll
    by (simp add: written_def reg_ops_def reg_op_of_def addr22_def)
  show ?thesis
    using regs_ok_ft81x faulted_chip_sentinel o f c by (simp add: faulted_poll)
qed

section \<open>Touch calibration: the matrix reproduces the points\<close>

lemma smod_abs_less: "k \<noteq> 0 \<Longrightarrow> \<bar>n smod k\<bar> < \<bar>k :: int\<bar>"
proof -
  assume k: "k \<noteq> 0"
  have nn: "0 \<le> \<bar>n\<bar> mod \<bar>k\<bar>" using k by simp
  have "\<bar>n smod k\<bar> = \<bar>sgn n\<bar> * (\<bar>n\<bar> mod \<bar>k\<bar>)"
    unfolding smod_int_alt_def abs_mult using nn by (simp only: abs_of_nonneg)
  also have "\<dots> \<le> \<bar>n\<bar> mod \<bar>k\<bar>" by (cases "n = 0") (simp_all add: abs_sgn_eq)
  also have "\<dots> < \<bar>k\<bar>" using k by simp
  finally show ?thesis .
qed

lemma q16_rem:
  assumes "k \<noteq> 0"
  obtains r where "n * 65536 = q16 n k * k + r" "\<bar>r\<bar> < \<bar>k\<bar>"
proof
  show "n * 65536 = q16 n k * k + (n * 65536) smod k"
    unfolding q16_def by (simp add: sdiv_mult_smod_eq)
  show "\<bar>(n * 65536) smod k\<bar> < \<bar>k\<bar>" by (rule smod_abs_less) fact
qed

lemma affine_error:
  fixes k na nb nc x y d :: int
  assumes k: "k \<noteq> 0" and id: "na * x + nb * y + nc = k * d" and x: "0 \<le> x" and y: "0 \<le> y"
  shows "\<bar>q16 na k * x + q16 nb k * y + q16 nc k - 65536 * d\<bar> \<le> x + y"
proof -
  obtain ra where ra: "na * 65536 = q16 na k * k + ra" "\<bar>ra\<bar> < \<bar>k\<bar>" using q16_rem [OF k] .
  obtain rb where rb: "nb * 65536 = q16 nb k * k + rb" "\<bar>rb\<bar> < \<bar>k\<bar>" using q16_rem [OF k] .
  obtain rc where rc: "nc * 65536 = q16 nc k * k + rc" "\<bar>rc\<bar> < \<bar>k\<bar>" using q16_rem [OF k] .
  define e where "e = q16 na k * x + q16 nb k * y + q16 nc k - 65536 * d"
  have "k * e = (q16 na k * k) * x + (q16 nb k * k) * y + q16 nc k * k - 65536 * (k * d)"
    by (simp add: e_def algebra_simps)
  also have "\<dots> = (na * 65536 - ra) * x + (nb * 65536 - rb) * y + (nc * 65536 - rc)
                    - 65536 * (na * x + nb * y + nc)"
    using ra(1) rb(1) rc(1) id by simp
  also have "\<dots> = - (ra * x + rb * y + rc)" by (simp add: algebra_simps)
  finally have ke: "k * e = - (ra * x + rb * y + rc)" .
  have "\<bar>k\<bar> * \<bar>e\<bar> = \<bar>ra * x + rb * y + rc\<bar>"
    using ke by (simp add: abs_mult [symmetric])
  also have "\<dots> \<le> \<bar>ra\<bar> * x + \<bar>rb\<bar> * y + \<bar>rc\<bar>"
  proof -
    have "\<bar>ra * x + rb * y + rc\<bar> \<le> \<bar>ra * x\<bar> + \<bar>rb * y\<bar> + \<bar>rc\<bar>" by linarith
    then show ?thesis using x y by (simp add: abs_mult)
  qed
  also have "\<dots> \<le> (\<bar>k\<bar> - 1) * x + (\<bar>k\<bar> - 1) * y + (\<bar>k\<bar> - 1)"
  proof -
    have "\<bar>ra\<bar> * x \<le> (\<bar>k\<bar> - 1) * x" using ra(2) x by (intro mult_right_mono) simp_all
    moreover have "\<bar>rb\<bar> * y \<le> (\<bar>k\<bar> - 1) * y" using rb(2) y by (intro mult_right_mono) simp_all
    moreover have "\<bar>rc\<bar> \<le> \<bar>k\<bar> - 1" using rc(2) by simp
    ultimately show ?thesis by linarith
  qed
  also have "\<dots> = (\<bar>k\<bar> - 1) * (x + y + 1)" by (simp add: algebra_simps)
  also have "\<dots> < \<bar>k\<bar> * (x + y + 1)" using x y by (intro mult_strict_right_mono) simp_all
  finally have "\<bar>k\<bar> * \<bar>e\<bar> < \<bar>k\<bar> * (x + y + 1)" .
  then have "\<bar>e\<bar> < x + y + 1" using k by (simp add: mult_less_cancel_left_pos)
  then show ?thesis unfolding e_def by simp
qed

lemma cramer:
  fixes x0 x1 x2 y0 y1 y2 d0 d1 d2 :: int
  defines "k \<equiv> (x0 - x2) * (y1 - y2) - (x1 - x2) * (y0 - y2)"
  defines "na \<equiv> (d0 - d2) * (y1 - y2) - (d1 - d2) * (y0 - y2)"
  defines "nb \<equiv> (x0 - x2) * (d1 - d2) - (d0 - d2) * (x1 - x2)"
  defines "nc \<equiv> y0 * (x2 * d1 - x1 * d2) + y1 * (x0 * d2 - x2 * d0) + y2 * (x1 * d0 - x0 * d1)"
  shows "na * x0 + nb * y0 + nc = k * d0"
    and "na * x1 + nb * y1 + nc = k * d1"
    and "na * x2 + nb * y2 + nc = k * d2"
  unfolding k_def na_def nb_def nc_def by algebra+


lemma sint_word_of_int_fits: "fits32 v \<Longrightarrow> sint (word_of_int v :: s32) = v"
  unfolding fits32_def
  by (simp add: signed_of_int signed_take_bit_int_eq_self)

lemma prod_bound:
  fixes p q :: int
  assumes "\<bar>p\<bar> \<le> 2000" "\<bar>q\<bar> \<le> 2000"
  shows "\<bar>p * q\<bar> \<le> 4000000"
proof -
  have "\<bar>p\<bar> * \<bar>q\<bar> \<le> 2000 * 2000" using assms by (intro mult_mono) simp_all
  then show ?thesis by (simp add: abs_mult)
qed

lemma quad_fits:
  fixes a b c d e f g h :: int
  assumes "0 \<le> a" "a \<le> 2000" "0 \<le> b" "b \<le> 2000" "0 \<le> c" "c \<le> 2000" "0 \<le> d" "d \<le> 2000"
    "0 \<le> e" "e \<le> 2000" "0 \<le> f" "f \<le> 2000" "0 \<le> g" "g \<le> 2000" "0 \<le> h" "h \<le> 2000"
  shows "fits32 ((a - b) * (c - d) - (e - f) * (g - h))"
proof -
  define P where "P = (a - b) * (c - d)"
  define Q where "Q = (e - f) * (g - h)"
  have "\<bar>P\<bar> \<le> 4000000" unfolding P_def using assms by (intro prod_bound) simp_all
  moreover have "\<bar>Q\<bar> \<le> 4000000" unfolding Q_def using assms by (intro prod_bound) simp_all
  ultimately have "- 2147483648 \<le> P - Q \<and> P - Q < 2147483648" by linarith
  then have "- (2 ^ 31) \<le> P - Q \<and> P - Q < 2 ^ 31" by simp
  then show ?thesis unfolding fits32_def P_def Q_def .
qed

lemma coord: "coord_ok c \<Longrightarrow> 0 \<le> uint c \<and> uint c \<le> 2000"
  unfolding coord_ok_def using uint_nat [of c] by linarith

lemma fix16_exact:
  assumes "fits32 n" "fits32 k" "fits32 (q16 n k)"
  shows "sint (fix16 (word_of_int n) (word_of_int k)) = q16 n k"
  using assms by (simp add: fix16_def sint_word_of_int_fits q16_def)


lemma row_exact:
  fixes d0 d1 d2 x0 x1 x2 y0 y1 y2 :: u32
  assumes b: "list_all coord_ok [d0, d1, d2, x0, x1, x2, y0, y1, y2]"
    and c: "fits32 (num_c [x0, x1, x2] [y0, y1, y2] [d0, d1, d2])"
    and q: "fits32 (q16 (num_a [d0, d1, d2] [y0, y1, y2]) (det_int [x0, x1, x2] [y0, y1, y2]))"
           "fits32 (q16 (num_b [x0, x1, x2] [d0, d1, d2]) (det_int [x0, x1, x2] [y0, y1, y2]))"
           "fits32 (q16 (num_c [x0, x1, x2] [y0, y1, y2] [d0, d1, d2])
                        (det_int [x0, x1, x2] [y0, y1, y2]))"
  shows "sint (touch_det [x0, x1, x2] [y0, y1, y2]) = det_int [x0, x1, x2] [y0, y1, y2]"
    and "sint (fix16 (((d0 - d2) * (y1 - y2)) - ((d1 - d2) * (y0 - y2)))
                     (touch_det [x0, x1, x2] [y0, y1, y2]))
         = q16 (num_a [d0, d1, d2] [y0, y1, y2]) (det_int [x0, x1, x2] [y0, y1, y2])"
    and "sint (fix16 (((x0 - x2) * (d1 - d2)) - ((d0 - d2) * (x1 - x2)))
                     (touch_det [x0, x1, x2] [y0, y1, y2]))
         = q16 (num_b [x0, x1, x2] [d0, d1, d2]) (det_int [x0, x1, x2] [y0, y1, y2])"
    and "sint (fix16 ((y0 * (((x2 * d1) - (x1 * d2)))) + (y1 * (((x0 * d2) - (x2 * d0))))
                      + (y2 * (((x1 * d0) - (x0 * d1)))))
                     (touch_det [x0, x1, x2] [y0, y1, y2]))
         = q16 (num_c [x0, x1, x2] [y0, y1, y2] [d0, d1, d2]) (det_int [x0, x1, x2] [y0, y1, y2])"
proof -
  note cb = coord [of d0] coord [of d1] coord [of d2] coord [of x0] coord [of x1] coord [of x2]
    coord [of y0] coord [of y1] coord [of y2]
  have fk: "fits32 (det_int [x0, x1, x2] [y0, y1, y2])"
    unfolding det_int_def using b cb by (simp, intro quad_fits) simp_all
  have fa: "fits32 (num_a [d0, d1, d2] [y0, y1, y2])"
    unfolding num_a_def using b cb by (simp, intro quad_fits) simp_all
  have fb: "fits32 (num_b [x0, x1, x2] [d0, d1, d2])"
    unfolding num_b_def using b cb by (simp, intro quad_fits) simp_all
  have wk: "touch_det [x0, x1, x2] [y0, y1, y2] = word_of_int (det_int [x0, x1, x2] [y0, y1, y2])"
    by (simp add: touch_det_def det_int_def)
  have wa: "((d0 - d2) * (y1 - y2)) - ((d1 - d2) * (y0 - y2))
            = word_of_int (num_a [d0, d1, d2] [y0, y1, y2])"
    by (simp add: num_a_def)
  have wb: "((x0 - x2) * (d1 - d2)) - ((d0 - d2) * (x1 - x2))
            = word_of_int (num_b [x0, x1, x2] [d0, d1, d2])"
    by (simp add: num_b_def)
  have wc: "(y0 * (((x2 * d1) - (x1 * d2)))) + (y1 * (((x0 * d2) - (x2 * d0))))
                      + (y2 * (((x1 * d0) - (x0 * d1))))
            = word_of_int (num_c [x0, x1, x2] [y0, y1, y2] [d0, d1, d2])"
    by (simp add: num_c_def)
  show "sint (touch_det [x0, x1, x2] [y0, y1, y2]) = det_int [x0, x1, x2] [y0, y1, y2]"
    unfolding wk by (rule sint_word_of_int_fits) (rule fk)
  show "sint (fix16 (((d0 - d2) * (y1 - y2)) - ((d1 - d2) * (y0 - y2)))
                     (touch_det [x0, x1, x2] [y0, y1, y2]))
         = q16 (num_a [d0, d1, d2] [y0, y1, y2]) (det_int [x0, x1, x2] [y0, y1, y2])"
    unfolding wk wa by (rule fix16_exact [OF fa fk q(1)])
  show "sint (fix16 (((x0 - x2) * (d1 - d2)) - ((d0 - d2) * (x1 - x2)))
                     (touch_det [x0, x1, x2] [y0, y1, y2]))
         = q16 (num_b [x0, x1, x2] [d0, d1, d2]) (det_int [x0, x1, x2] [y0, y1, y2])"
    unfolding wk wb by (rule fix16_exact [OF fb fk q(2)])
  show "sint (fix16 ((y0 * (((x2 * d1) - (x1 * d2)))) + (y1 * (((x0 * d2) - (x2 * d0))))
                      + (y2 * (((x1 * d0) - (x0 * d1)))))
                     (touch_det [x0, x1, x2] [y0, y1, y2]))
         = q16 (num_c [x0, x1, x2] [y0, y1, y2] [d0, d1, d2]) (det_int [x0, x1, x2] [y0, y1, y2])"
    unfolding wk wc by (rule fix16_exact [OF c fk q(3)])
qed

lemma row_points:
  fixes d0 d1 d2 x0 x1 x2 y0 y1 y2 :: u32
  assumes b: "list_all coord_ok [d0, d1, d2, x0, x1, x2, y0, y1, y2]"
    and k: "det_int [x0, x1, x2] [y0, y1, y2] \<noteq> 0"
  defines "K \<equiv> det_int [x0, x1, x2] [y0, y1, y2]"
  defines "qa \<equiv> q16 (num_a [d0, d1, d2] [y0, y1, y2]) K"
  defines "qb \<equiv> q16 (num_b [x0, x1, x2] [d0, d1, d2]) K"
  defines "qc \<equiv> q16 (num_c [x0, x1, x2] [y0, y1, y2] [d0, d1, d2]) K"
  shows "within_one_pixel (qa * uint x0 + qb * uint y0 + qc) (uint d0)"
    and "within_one_pixel (qa * uint x1 + qb * uint y1 + qc) (uint d1)"
    and "within_one_pixel (qa * uint x2 + qb * uint y2 + qc) (uint d2)"
proof -
  note cb = coord [of d0] coord [of d1] coord [of d2] coord [of x0] coord [of x1] coord [of x2]
    coord [of y0] coord [of y1] coord [of y2]
  note cr = cramer [where ?x0.0 = "uint x0" and ?x1.0 = "uint x1" and ?x2.0 = "uint x2"
      and ?y0.0 = "uint y0" and ?y1.0 = "uint y1" and ?y2.0 = "uint y2"
      and ?d0.0 = "uint d0" and ?d1.0 = "uint d1" and ?d2.0 = "uint d2"]
  have k': "K \<noteq> 0" using k by (simp add: K_def)
  have e0: "\<bar>qa * uint x0 + qb * uint y0 + qc - 65536 * uint d0\<bar> \<le> uint x0 + uint y0"
    unfolding qa_def qb_def qc_def
    by (rule affine_error [OF k'])
       (use cr(1) in \<open>simp_all add: K_def num_a_def num_b_def num_c_def det_int_def\<close>)
  have e1: "\<bar>qa * uint x1 + qb * uint y1 + qc - 65536 * uint d1\<bar> \<le> uint x1 + uint y1"
    unfolding qa_def qb_def qc_def
    by (rule affine_error [OF k'])
       (use cr(2) in \<open>simp_all add: K_def num_a_def num_b_def num_c_def det_int_def\<close>)
  have e2: "\<bar>qa * uint x2 + qb * uint y2 + qc - 65536 * uint d2\<bar> \<le> uint x2 + uint y2"
    unfolding qa_def qb_def qc_def
    by (rule affine_error [OF k'])
       (use cr(3) in \<open>simp_all add: K_def num_a_def num_b_def num_c_def det_int_def\<close>)
  show "within_one_pixel (qa * uint x0 + qb * uint y0 + qc) (uint d0)"
    and "within_one_pixel (qa * uint x1 + qb * uint y1 + qc) (uint d1)"
    and "within_one_pixel (qa * uint x2 + qb * uint y2 + qc) (uint d2)"
    unfolding within_one_pixel_def using e0 e1 e2 b cb by simp_all
qed


text \<open>
  C5, as the code has it. For display and touch points with all coordinates at most 2000
  and a touch determinant that is not zero, whenever the third numerator of each row fits
  \<^verbatim>\<open>int32_t tmp\<close> (the other numerators and \<^verbatim>\<open>k\<close> always do) and the six quotients
  fit the signed 32-bit 16.16 coefficients, applying the matrix of
  \<^verbatim>\<open>calculate_touch_matrix\<close> to each of the three touch points gives the display point to
  within one pixel.
\<close>

theorem calibration_reproduces_points:
  fixes dx0 dx1 dx2 dy0 dy1 dy2 tx0 tx1 tx2 ty0 ty1 ty2 :: u32
  assumes b: "list_all coord_ok [dx0, dx1, dx2, dy0, dy1, dy2, tx0, tx1, tx2, ty0, ty1, ty2]"
    and k: "det_int [tx0, tx1, tx2] [ty0, ty1, ty2] \<noteq> 0"
    and n: "fits32 (num_c [tx0, tx1, tx2] [ty0, ty1, ty2] [dx0, dx1, dx2])"
           "fits32 (num_c [tx0, tx1, tx2] [ty0, ty1, ty2] [dy0, dy1, dy2])"
    and q: "list_all fits32
             [q16 (num_a [dx0, dx1, dx2] [ty0, ty1, ty2]) (det_int [tx0, tx1, tx2] [ty0, ty1, ty2]),
              q16 (num_b [tx0, tx1, tx2] [dx0, dx1, dx2]) (det_int [tx0, tx1, tx2] [ty0, ty1, ty2]),
              q16 (num_c [tx0, tx1, tx2] [ty0, ty1, ty2] [dx0, dx1, dx2])
                  (det_int [tx0, tx1, tx2] [ty0, ty1, ty2]),
              q16 (num_a [dy0, dy1, dy2] [ty0, ty1, ty2]) (det_int [tx0, tx1, tx2] [ty0, ty1, ty2]),
              q16 (num_b [tx0, tx1, tx2] [dy0, dy1, dy2]) (det_int [tx0, tx1, tx2] [ty0, ty1, ty2]),
              q16 (num_c [tx0, tx1, tx2] [ty0, ty1, ty2] [dy0, dy1, dy2])
                  (det_int [tx0, tx1, tx2] [ty0, ty1, ty2])]"
  shows "\<exists>m. calculate_touch_matrix [dx0, dx1, dx2] [dy0, dy1, dy2]
               [tx0, tx1, tx2] [ty0, ty1, ty2] = Inr m
           \<and> length m = 6
           \<and> within_one_pixel (fixed_point m 0 (uint tx0) (uint ty0)) (uint dx0)
           \<and> within_one_pixel (fixed_point m 0 (uint tx1) (uint ty1)) (uint dx1)
           \<and> within_one_pixel (fixed_point m 0 (uint tx2) (uint ty2)) (uint dx2)
           \<and> within_one_pixel (fixed_point m 3 (uint tx0) (uint ty0)) (uint dy0)
           \<and> within_one_pixel (fixed_point m 3 (uint tx1) (uint ty1)) (uint dy1)
           \<and> within_one_pixel (fixed_point m 3 (uint tx2) (uint ty2)) (uint dy2)"
proof -
  have bx: "list_all coord_ok [dx0, dx1, dx2, tx0, tx1, tx2, ty0, ty1, ty2]"
    and "by": "list_all coord_ok [dy0, dy1, dy2, tx0, tx1, tx2, ty0, ty1, ty2]"
    using b by simp_all
  have qx: "fits32 (q16 (num_a [dx0, dx1, dx2] [ty0, ty1, ty2]) (det_int [tx0, tx1, tx2] [ty0, ty1, ty2]))"
       "fits32 (q16 (num_b [tx0, tx1, tx2] [dx0, dx1, dx2]) (det_int [tx0, tx1, tx2] [ty0, ty1, ty2]))"
       "fits32 (q16 (num_c [tx0, tx1, tx2] [ty0, ty1, ty2] [dx0, dx1, dx2])
                  (det_int [tx0, tx1, tx2] [ty0, ty1, ty2]))"
    and qy: "fits32 (q16 (num_a [dy0, dy1, dy2] [ty0, ty1, ty2]) (det_int [tx0, tx1, tx2] [ty0, ty1, ty2]))"
       "fits32 (q16 (num_b [tx0, tx1, tx2] [dy0, dy1, dy2]) (det_int [tx0, tx1, tx2] [ty0, ty1, ty2]))"
       "fits32 (q16 (num_c [tx0, tx1, tx2] [ty0, ty1, ty2] [dy0, dy1, dy2])
                  (det_int [tx0, tx1, tx2] [ty0, ty1, ty2]))"
    using q by simp_all
  note rx = row_exact [OF bx n(1) qx]
  note ry = row_exact [OF "by" n(2) qy]
  note px = row_points [OF bx k]
  note py = row_points [OF "by" k]
  have nz: "touch_det [tx0, tx1, tx2] [ty0, ty1, ty2] \<noteq> 0"
  proof
    assume "touch_det [tx0, tx1, tx2] [ty0, ty1, ty2] = 0"
    then have "sint (touch_det [tx0, tx1, tx2] [ty0, ty1, ty2]) = 0" by simp
    then show False using rx(1) k by simp
  qed
  show ?thesis
    unfolding calculate_touch_matrix_nonzero [OF nz]
    using px py
    by (simp add: fixed_point_def rx(2-4) ry(2-4) eval_nat_numeral)
qed


lemma example_matrix:
  "calculate_touch_matrix [120, 680, 400] [72, 240, 408] [100, 900, 500] [100, 500, 900]
   = Inr [45875, 0, 3276800, 0, 27525, 1966080]"
  by (simp add: calculate_touch_matrix_nonzero touch_det_def fix16_def signed_divide_int_def)

theorem calibration_reproduces_points_witness:
  "list_all coord_ok [120, 680, 400, 72, 240, 408, 100, 900, 500, 100, 500, 900]
   \<and> det_int [100, 900, 500] [100, 500, 900] = 480000
   \<and> fits32 (num_c [100, 900, 500] [100, 500, 900] [120, 680, 400])
   \<and> fits32 (num_c [100, 900, 500] [100, 500, 900] [72, 240, 408])
   \<and> calculate_touch_matrix [120, 680, 400] [72, 240, 408] [100, 900, 500] [100, 500, 900]
       = Inr [45875, 0, 3276800, 0, 27525, 1966080]
   \<and> within_one_pixel (fixed_point [45875, 0, 3276800, 0, 27525, 1966080] 0 100 100) 120
   \<and> within_one_pixel (fixed_point [45875, 0, 3276800, 0, 27525, 1966080] 0 900 500) 680
   \<and> within_one_pixel (fixed_point [45875, 0, 3276800, 0, 27525, 1966080] 0 500 900) 400
   \<and> within_one_pixel (fixed_point [45875, 0, 3276800, 0, 27525, 1966080] 3 100 100) 72
   \<and> within_one_pixel (fixed_point [45875, 0, 3276800, 0, 27525, 1966080] 3 900 500) 240
   \<and> within_one_pixel (fixed_point [45875, 0, 3276800, 0, 27525, 1966080] 3 500 900) 408"
proof -
  have b: "list_all coord_ok [120, 680, 400, 72, 240, 408, 100, 900, 500, 100, 500, 900]"
    by (simp add: coord_ok_def)
  have kv: "det_int [100, 900, 500] [100, 500, 900] = 480000"
    by (simp add: det_int_def)
  have k: "det_int [100, 900, 500] [100, 500, 900] \<noteq> 0" unfolding kv by simp
  have n: "fits32 (num_c [100, 900, 500] [100, 500, 900] [120, 680, 400])"
          "fits32 (num_c [100, 900, 500] [100, 500, 900] [72, 240, 408])"
    by (simp_all add: fits32_def num_c_def)
  have q: "list_all fits32
             [q16 (num_a [120, 680, 400] [100, 500, 900]) (det_int [100, 900, 500] [100, 500, 900]),
              q16 (num_b [100, 900, 500] [120, 680, 400]) (det_int [100, 900, 500] [100, 500, 900]),
              q16 (num_c [100, 900, 500] [100, 500, 900] [120, 680, 400])
                  (det_int [100, 900, 500] [100, 500, 900]),
              q16 (num_a [72, 240, 408] [100, 500, 900]) (det_int [100, 900, 500] [100, 500, 900]),
              q16 (num_b [100, 900, 500] [72, 240, 408]) (det_int [100, 900, 500] [100, 500, 900]),
              q16 (num_c [100, 900, 500] [100, 500, 900] [72, 240, 408])
                  (det_int [100, 900, 500] [100, 500, 900])]"
    unfolding kv
    by (simp add: fits32_def q16_def num_a_def num_b_def num_c_def signed_divide_int_def)
  from calibration_reproduces_points [OF b k n q]
  show ?thesis
    using b kv n by (simp add: example_matrix)
qed

text \<open>
  The claim as stated fails: the touch points (1,1999), (1,2000), (0,0) are not collinear
  (\<open>k = 1\<close>), all coordinates are at most 2000, and the X scale of 4000000 has no 16.16
  representation: the coefficient stored is 2304.0, and the first touch point is mapped
  millions of pixels away from its display point (2000, 0).
\<close>

theorem calibration_thin_triangle_counterexample:
  "list_all coord_ok [2000, 0, 0, 0, 2000, 0, 1, 1, 0, 1999, 2000, 0]
   \<and> touch_det [1, 1, 0] [1999, 2000, 0] = 1
   \<and> calculate_touch_matrix [2000, 0, 0] [0, 2000, 0] [1, 1, 0] [1999, 2000, 0]
       = Inr [150994944, 4163895296, 0, 4275044352, 131072000, 0]
   \<and> fixed_point [150994944, 4163895296, 0, 4275044352, 131072000, 0] 0 1 1999
       = - 261861933056
   \<and> \<not> within_one_pixel
          (fixed_point [150994944, 4163895296, 0, 4275044352, 131072000, 0] 0 1 1999) 2000"
proof -
  have k: "touch_det [1, 1, 0] [1999, 2000, 0] = 1" by (simp add: touch_det_def)
  have m: "calculate_touch_matrix [2000, 0, 0] [0, 2000, 0] [1, 1, 0] [1999, 2000, 0]
           = Inr [150994944, 4163895296, 0, 4275044352, 131072000, 0]"
    by (simp add: calculate_touch_matrix_nonzero k fix16_def signed_divide_int_def)
  have f: "fixed_point [150994944, 4163895296, 0, 4275044352, 131072000, 0] 0 1 1999
           = - 261861933056"
    by (simp add: fixed_point_def)
  show ?thesis unfolding f using k m by (simp add: coord_ok_def within_one_pixel_def)
qed

text \<open>
  The numerator that is cubic in the coordinates can leave \<^verbatim>\<open>int32_t\<close> as well: for a
  mirrored X axis, touch (0,0), (2000,0), (2000,2000) and display (2000,0), (0,0), (0,2000),
  it is 8000000000, and the offset coefficient comes out as -147.5 pixels instead of 2000.
\<close>

lemma calibration_mirrored_example:
  "calculate_touch_matrix [2000, 0, 0] [0, 0, 2000] [0, 2000, 2000] [0, 0, 2000]
     = Inr [4294901760, 0, 4285301808, 0, 65536, 0]
   \<and> num_c [0, 2000, 2000] [0, 0, 2000] [2000, 0, 0] = 8000000000
   \<and> fixed_point [4294901760, 0, 4285301808, 0, 65536, 0] 0 0 0 = - 9665488
   \<and> \<not> within_one_pixel (fixed_point [4294901760, 0, 4285301808, 0, 65536, 0] 0 0 0) 2000"
proof -
  have k: "touch_det [0, 2000, 2000] [0, 0, 2000] = 4000000" by (simp add: touch_det_def)
  have m: "calculate_touch_matrix [2000, 0, 0] [0, 0, 2000] [0, 2000, 2000] [0, 0, 2000]
     = Inr [4294901760, 0, 4285301808, 0, 65536, 0]"
    by (simp add: calculate_touch_matrix_nonzero k fix16_def signed_divide_int_def)
  have f: "fixed_point [4294901760, 0, 4285301808, 0, 65536, 0] 0 0 0 = - 9665488"
    by (simp add: fixed_point_def)
  show ?thesis unfolding f using m by (simp add: num_c_def within_one_pixel_def)
qed

end
